theory Spec2Isabelle
  imports Complex_Main "HOL-Library.Sublist"
begin

section \<open>The shared audio element and its coordinator\<close>

text \<open>
  The development embeds \<^verbatim>\<open>src/components/ui/audio-player.tsx\<close>: the
  module-level singleton \<^verbatim>\<open>audioManager\<close> and the \<^verbatim>\<open>AudioPlayer\<close> component
  whose instances share its one audio element.

  JavaScript runs the component's code on one thread, so every function of the source is a
  state transformer on one record. What the code does to the outside (the callbacks of the
  owning UI, toasts, calls of the media element) is appended to a log.
\<close>

subsection \<open>Strings\<close>

text \<open>\<^verbatim>\<open>u.includes(s)\<close>: \<open>s\<close> occurs in \<open>u\<close> as a contiguous run.\<close>

primrec js_includes :: "'a list \<Rightarrow> 'a list \<Rightarrow> bool" where
  "js_includes [] s = (s = [])"
| "js_includes (c # u) s = (prefix s (c # u) \<or> js_includes u s)"

subsection \<open>Data\<close>

text \<open>A mounted \<^verbatim>\<open>AudioPlayer\<close> instance (the identity behind \<^verbatim>\<open>componentIdRef\<close>).\<close>

type_synonym player = nat

text \<open>
  The closure a player registers in \<^verbatim>\<open>setActivePlayer\<close>:
  \<^verbatim>\<open>(isActive) => { if (!isActive && isPlaying) onPlayPauseRef.current() }\<close>.
  It captures the player (through its \<^verbatim>\<open>onPlayPauseRef\<close>) and the \<^verbatim>\<open>isPlaying\<close> of
  the render that created it.
\<close>

datatype callback = PlayerCallback player bool

datatype event =
    CallbackCalled callback bool
  | OnPlayPause player
  | SetCurrentTime player real
  | OnTimeUpdate player real
  | ToastError string
  | PlayAudio player
  | MediaPlay
  | MediaPause
  | MediaLoad

text \<open>The properties of the media element that the component reads and writes.\<close>

record audio_element =
  audio_src :: string
  audio_paused :: bool
  audio_currentTime :: real

text \<open>
  The props of one render, as far as the effects read them; \<open>onTimeUpdate\<close> says whether
  the optional callback was passed.
\<close>

record props =
  src :: string
  isPlaying :: bool
  initialTime :: real
  onTimeUpdate :: bool

text \<open>
  Callbacks handed to \<^verbatim>\<open>setTimeout\<close>: the fallback of \<^verbatim>\<open>waitForCanPlay\<close> (its player,
  the \<^verbatim>\<open>src\<close> of its render and the \<^verbatim>\<open>canPlayHandler\<close> of the same call) and the reset
  of \<^verbatim>\<open>isUpdatingSourceRef\<close> in \<^verbatim>\<open>updateAudioSource\<close>.
\<close>

datatype timeout = CanPlayTimeout player string nat | UpdatingReset player

datatype js_error = TypeError

text \<open>
  What the host does when \<^verbatim>\<open>audio.play()\<close> is called on a paused element: it starts
  playback, or its autoplay policy refuses (the element stays paused and the promise is
  rejected later with \<^verbatim>\<open>NotAllowedError\<close>), or the call throws.
\<close>

datatype play_outcome = Plays | Rejects | Throws

text \<open>
  The state. The first four fields are \<^verbatim>\<open>audioManager\<close>. Its \<^verbatim>\<open>activeElement\<close> is
  \<^verbatim>\<open>null\<close> exactly while \<^verbatim>\<open>isInitialized\<close> is false (\<^verbatim>\<open>initialize\<close> sets both and
  nothing resets either), so the field holds the element and is read as \<^verbatim>\<open>null\<close> while
  \<open>isInitialized\<close> is \<open>False\<close>.

  The next four are the refs of every player. Then comes the host: the \<^verbatim>\<open>canplay\<close>
  listeners on the element (handle, player, \<^verbatim>\<open>src\<close> of the closure), the pending timeouts
  (handle, delay in ms, callback), the pending animation frames (handle, player, props of
  the closure), the next fresh handle (handles are positive, hence truthy), the URL that
  the element's \<^verbatim>\<open>src\<close> getter returns for an assigned string, what
  \<^verbatim>\<open>audio.play()\<close> does, and the play promises that the host has rejected and whose
  \<^verbatim>\<open>catch\<close> callback has not run yet (the player of the \<^verbatim>\<open>playAudio\<close> call that
  attached the callback, and the name of the error).

  The log records the calls of the owning UI's callbacks (\<open>OnPlayPause\<close>,
  \<open>OnTimeUpdate\<close>), of the player's own \<^verbatim>\<open>setCurrentTime\<close>, of \<^verbatim>\<open>toast.error\<close> and of
  the element's \<^verbatim>\<open>play\<close>, \<^verbatim>\<open>pause\<close> and \<^verbatim>\<open>load\<close>, and, to make them countable, the
  calls of a stored deactivation callback with their argument (\<open>CallbackCalled\<close>) and the
  entries into \<^verbatim>\<open>playAudio\<close> (\<open>PlayAudio\<close>). Console output is left out.
\<close>

record state =
  activeElement :: audio_element
  isInitialized :: bool
  activeSource :: string
  activePlayerCallback :: "callback option"
  sourceChangedRef :: "player \<Rightarrow> bool"
  isUpdatingSourceRef :: "player \<Rightarrow> bool"
  lastTimeUpdateRef :: "player \<Rightarrow> int"
  animationRef :: "player \<Rightarrow> nat option"
  canplayListeners :: "(nat \<times> player \<times> string) list"
  timeouts :: "(nat \<times> nat \<times> timeout) list"
  animationFrames :: "(nat \<times> player \<times> props) list"
  nextHandle :: nat
  resolveUrl :: "string \<Rightarrow> string"
  playOutcome :: play_outcome
  rejectedPromises :: "(player \<times> string) list"
  log :: "event list"

definition emit :: "event \<Rightarrow> state \<Rightarrow> state" where
  "emit e w = w\<lparr>log := log w @ [e]\<rparr>"

subsection \<open>The media element\<close>

text \<open>
  \<^verbatim>\<open>document.createElement('audio')\<close>: no source, paused, at position 0.
\<close>

definition fresh_audio :: audio_element where
  "fresh_audio = \<lparr>audio_src = '''', audio_paused = True, audio_currentTime = 0\<rparr>"

definition audio_pause :: "state \<Rightarrow> state" where
  "audio_pause w = emit MediaPause (w\<lparr>activeElement := (activeElement w)\<lparr>audio_paused := True\<rparr>\<rparr>)"

text \<open>
  \<^verbatim>\<open>audio.play()\<close> that does not throw: the element is no longer paused, unless the
  autoplay policy refuses.
\<close>

definition audio_play :: "state \<Rightarrow> state" where
  "audio_play w =
     emit MediaPlay
       (if playOutcome w = Rejects then w
        else w\<lparr>activeElement := (activeElement w)\<lparr>audio_paused := False\<rparr>\<rparr>)"

text \<open>
  \<^verbatim>\<open>audio.src = s\<close>: the getter then returns the resolved URL; the assignment runs the
  element's load algorithm, which leaves the element paused at position 0.
\<close>

definition audio_set_src :: "string \<Rightarrow> state \<Rightarrow> state" where
  "audio_set_src s w =
     w\<lparr>activeElement :=
         \<lparr>audio_src = resolveUrl w s, audio_paused = True, audio_currentTime = 0\<rparr>\<rparr>"

text \<open>\<^verbatim>\<open>audio.load()\<close>: the element is paused and its position is back at 0.\<close>

definition audio_load :: "state \<Rightarrow> state" where
  "audio_load w =
     emit MediaLoad
       (w\<lparr>activeElement := (activeElement w)\<lparr>audio_paused := True, audio_currentTime := 0\<rparr>\<rparr>)"

definition setTimeout :: "timeout \<Rightarrow> nat \<Rightarrow> state \<Rightarrow> state" where
  "setTimeout c delay w =
     w\<lparr>timeouts := timeouts w @ [(nextHandle w, delay, c)], nextHandle := Suc (nextHandle w)\<rparr>"

definition requestAnimationFrame :: "player \<Rightarrow> props \<Rightarrow> state \<Rightarrow> state" where
  "requestAnimationFrame p pr w =
     w\<lparr>animationFrames := animationFrames w @ [(nextHandle w, p, pr)],
       nextHandle := Suc (nextHandle w)\<rparr>"

definition cancelAnimationFrame :: "nat \<Rightarrow> state \<Rightarrow> state" where
  "cancelAnimationFrame h w = w\<lparr>animationFrames := filter (\<lambda>f. fst f \<noteq> h) (animationFrames w)\<rparr>"

definition removeCanPlayListener :: "nat \<Rightarrow> state \<Rightarrow> state" where
  "removeCanPlayListener h w =
     w\<lparr>canplayListeners := filter (\<lambda>l. fst l \<noteq> h) (canplayListeners w)\<rparr>"

subsection \<open>\<^verbatim>\<open>audioManager\<close>\<close>

text \<open>
  \<^verbatim>\<open>initialize\<close> also removes stray elements with the player's id from the document, which
  the state does not hold.
\<close>

definition initialize :: "state \<Rightarrow> state" where
  "initialize w =
     (if isInitialized w then w
      else w\<lparr>activeElement := fresh_audio, isInitialized := True\<rparr>)"

text \<open>
  \<^verbatim>\<open>getAudioElement()\<close> returns \<open>activeElement\<close> of the state it leaves, which is never
  \<^verbatim>\<open>null\<close>; the callers' \<^verbatim>\<open>if (!audio) return\<close> is dead code.
\<close>

definition getAudioElement :: "state \<Rightarrow> state" where
  "getAudioElement w = (if \<not> isInitialized w then initialize w else w)"

fun invoke :: "callback \<Rightarrow> bool \<Rightarrow> state \<Rightarrow> state" where
  "invoke (PlayerCallback q playing) isActive w =
     (let w1 = emit (CallbackCalled (PlayerCallback q playing) isActive) w
      in if \<not> isActive \<and> playing then emit (OnPlayPause q) w1 else w1)"

definition setActivePlayer :: "string \<Rightarrow> callback \<Rightarrow> state \<Rightarrow> state" where
  "setActivePlayer source cb w =
     (let w1 = (if activeSource w \<noteq> source
                then (case activePlayerCallback w of
                        Some old \<Rightarrow> invoke old False w
                      | None \<Rightarrow> w)
                else w)
      in w1\<lparr>activeSource := source, activePlayerCallback := Some cb\<rparr>)"


subsection \<open>Helpers of \<^verbatim>\<open>AudioPlayer\<close>\<close>

definition timeUpdateThreshold :: int where
  "timeUpdateThreshold = 250"

definition stopSliderUpdates :: "player \<Rightarrow> state \<Rightarrow> state" where
  "stopSliderUpdates p w =
     (case animationRef w p of
        Some h \<Rightarrow> (cancelAnimationFrame h w)\<lparr>animationRef := (animationRef w)(p := None)\<rparr>
      | None \<Rightarrow> w)"

definition startSliderUpdates :: "player \<Rightarrow> props \<Rightarrow> state \<Rightarrow> state" where
  "startSliderUpdates p pr w =
     (let w1 = stopSliderUpdates p w;
          h = nextHandle w1;
          w2 = requestAnimationFrame p pr w1
      in w2\<lparr>animationRef := (animationRef w2)(p := Some h)\<rparr>)"

text \<open>The frame callback \<^verbatim>\<open>updateSlider\<close> of \<^verbatim>\<open>startSliderUpdates\<close>.\<close>

definition updateSlider :: "player \<Rightarrow> props \<Rightarrow> state \<Rightarrow> state" where
  "updateSlider p pr w =
     (if isInitialized w \<and> \<not> audio_paused (activeElement w)
         \<and> js_includes (audio_src (activeElement w)) (src pr)
      then
        (let t = audio_currentTime (activeElement w);
             w1 = emit (SetCurrentTime p t) w;
             w2 = (if onTimeUpdate pr then emit (OnTimeUpdate p t) w1 else w1);
             h = nextHandle w2;
             w3 = requestAnimationFrame p pr w2
         in w3\<lparr>animationRef := (animationRef w3)(p := Some h)\<rparr>)
      else w)"

definition updateAudioSource :: "player \<Rightarrow> string \<Rightarrow> state \<Rightarrow> state" where
  "updateAudioSource p newSrc w =
     (let w0 = getAudioElement w in
      if isUpdatingSourceRef w0 p then w0
      else if audio_src (activeElement w0) = ''''
              \<or> \<not> js_includes (audio_src (activeElement w0)) newSrc
      then
        (let w1 = w0\<lparr>isUpdatingSourceRef := (isUpdatingSourceRef w0)(p := True),
                     sourceChangedRef := (sourceChangedRef w0)(p := True)\<rparr>;
             w2 = audio_pause w1;
             w3 = audio_load (audio_set_src '''' w2);
             w4 = audio_load (audio_set_src newSrc w3)
         in setTimeout (UpdatingReset p) 100 w4)
      else w0)"

text \<open>
  \<^verbatim>\<open>playPromise.catch(...)\<close> in \<^verbatim>\<open>playAudio\<close>, called right after \<^verbatim>\<open>audio.play()\<close>
  has returned its promise: on a host whose autoplay policy refuses, the promise is
  rejected with \<^verbatim>\<open>NotAllowedError\<close> and the callback of player \<open>p\<close> will run.
\<close>

definition playPromise_attach :: "player \<Rightarrow> state \<Rightarrow> state" where
  "playPromise_attach p w =
     (if playOutcome w = Rejects
      then w\<lparr>rejectedPromises := rejectedPromises w @ [(p, ''NotAllowedError'')]\<rparr>
      else w)"

text \<open>
  \<^verbatim>\<open>playAudio\<close>. The \<^verbatim>\<open>try\<close> block can only leave through \<^verbatim>\<open>audio.play()\<close>
  throwing; the \<^verbatim>\<open>catch\<close> block then calls \<^verbatim>\<open>onPlayPauseRef.current()\<close>. A rejection
  of the promise that \<^verbatim>\<open>play()\<close> returns arrives later, in \<open>playPromise_catch\<close>.
\<close>

definition playAudio :: "player \<Rightarrow> string \<Rightarrow> state \<Rightarrow> state" where
  "playAudio p s w =
     (let w0 = emit (PlayAudio p) w in
      if \<not> js_includes (audio_src (activeElement w0)) s then updateAudioSource p s w0
      else if audio_paused (activeElement w0) then
        (if playOutcome w0 = Throws then emit (OnPlayPause p) (emit MediaPlay w0)
         else playPromise_attach p (audio_play w0))
      else w0)"

text \<open>The callback given to \<^verbatim>\<open>playPromise.catch\<close>, for an error with the given name.\<close>

definition playPromise_catch :: "player \<Rightarrow> string \<Rightarrow> state \<Rightarrow> state" where
  "playPromise_catch p name w =
     (if name = ''NotAllowedError''
      then emit (ToastError ''Please click play to start audio'') (emit (OnPlayPause p) w)
      else w)"

definition waitForCanPlay :: "player \<Rightarrow> string \<Rightarrow> state \<Rightarrow> state" where
  "waitForCanPlay p s w =
     (let h = nextHandle w;
          w1 = w\<lparr>canplayListeners := canplayListeners w @ [(h, p, s)], nextHandle := Suc h\<rparr>
      in setTimeout (CanPlayTimeout p s h) 1000 w1)"

text \<open>The listener \<^verbatim>\<open>canPlayHandler\<close> that \<^verbatim>\<open>waitForCanPlay\<close> registers.\<close>

definition canPlayHandler :: "nat \<times> player \<times> string \<Rightarrow> state \<Rightarrow> state" where
  "canPlayHandler l w =
     (case l of (h, p, s) \<Rightarrow>
        (let w1 = playAudio p s w;
             w2 = w1\<lparr>sourceChangedRef := (sourceChangedRef w1)(p := False)\<rparr>
         in removeCanPlayListener h w2))"

text \<open>The callbacks of the two \<^verbatim>\<open>setTimeout\<close> calls.\<close>

fun run_timeout :: "timeout \<Rightarrow> state \<Rightarrow> state" where
  "run_timeout (CanPlayTimeout p s h) w =
     (if sourceChangedRef w p
      then
        (let w1 = w\<lparr>sourceChangedRef := (sourceChangedRef w)(p := False)\<rparr>;
             w2 = playAudio p s w1
         in removeCanPlayListener h w2)
      else w)"
| "run_timeout (UpdatingReset p) w = w\<lparr>isUpdatingSourceRef := (isUpdatingSourceRef w)(p := False)\<rparr>"

subsection \<open>The listeners of \<^verbatim>\<open>setupAudioListeners\<close> and the seek handler\<close>

text \<open>
  \<open>handleError\<close> gets \<^verbatim>\<open>audio.error?.message\<close>, \<open>handleTimeUpdate\<close> gets
  \<^verbatim>\<open>Date.now()\<close>. The props are those of the render that registered the listeners.
\<close>

definition handleError :: "string option \<Rightarrow> state \<Rightarrow> state" where
  "handleError message w =
     emit (ToastError (''Audio error: '' @
             (case message of
                Some m \<Rightarrow> if m = '''' then ''Unknown error'' else m
              | None \<Rightarrow> ''Unknown error''))) w"

definition handleTimeUpdate :: "player \<Rightarrow> props \<Rightarrow> int \<Rightarrow> state \<Rightarrow> state" where
  "handleTimeUpdate p pr now w =
     (if now - lastTimeUpdateRef w p > timeUpdateThreshold then
        (let w1 = (if js_includes (audio_src (activeElement w)) (src pr) then
                     (let t = audio_currentTime (activeElement w);
                          newTime = (if t = 0 then 0 else t);
                          w' = emit (SetCurrentTime p newTime) w
                      in if onTimeUpdate pr then emit (OnTimeUpdate p newTime) w' else w')
                   else w)
         in w1\<lparr>lastTimeUpdateRef := (lastTimeUpdateRef w1)(p := now)\<rparr>)
      else w)"

definition handleEnded :: "player \<Rightarrow> props \<Rightarrow> state \<Rightarrow> state" where
  "handleEnded p pr w =
     (if js_includes (audio_src (activeElement w)) (src pr) then
        (let w1 = emit (SetCurrentTime p 0) w;
             w2 = (if onTimeUpdate pr then emit (OnTimeUpdate p 0) w1 else w1)
         in emit (OnPlayPause p) w2)
      else w)"

text \<open>
  \<open>handleSeek\<close>: \<^verbatim>\<open>value[0]\<close> of an empty array is \<^verbatim>\<open>undefined\<close>, and assigning it to
  \<^verbatim>\<open>currentTime\<close> throws a \<^verbatim>\<open>TypeError\<close>.
\<close>

definition handleSeek :: "player \<Rightarrow> props \<Rightarrow> real list \<Rightarrow> state \<Rightarrow> js_error + state" where
  "handleSeek p pr value w =
     (let w0 = getAudioElement w in
      if js_includes (audio_src (activeElement w0)) (src pr) then
        (case value of
           [] \<Rightarrow> Inl TypeError
         | newTime # _ \<Rightarrow>
             (let w1 = w0\<lparr>activeElement := (activeElement w0)\<lparr>audio_currentTime := newTime\<rparr>\<rparr>;
                  w2 = emit (SetCurrentTime p newTime) w1
              in Inr (if onTimeUpdate pr then emit (OnTimeUpdate p newTime) w2 else w2)))
      else Inr w0)"

subsection \<open>The effects of \<^verbatim>\<open>AudioPlayer\<close>\<close>

text \<open>
  Each effect is named after what it does; the line of its \<^verbatim>\<open>useEffect\<close> is given.
  An effect closes over the props of the render that ran it.
\<close>

text \<open>
  Line 117, no dependencies: the setup. On the first render \<open>listenerInitializedRef\<close> is
  clear, so the listeners of \<^verbatim>\<open>setupAudioListeners\<close> are attached (they are not part of the
  state) and a player that starts playing sets its source.
\<close>

definition effect_setup :: "player \<Rightarrow> props \<Rightarrow> state \<Rightarrow> state" where
  "effect_setup p pr w =
     (let w0 = getAudioElement w in
      if isPlaying pr \<and> \<not> isUpdatingSourceRef w0 p then updateAudioSource p (src pr) w0
      else w0)"

text \<open>Line 148, dependencies \<^verbatim>\<open>[src, isPlaying]\<close>: update the source.\<close>

definition effect_updateSource :: "player \<Rightarrow> props \<Rightarrow> state \<Rightarrow> state" where
  "effect_updateSource p pr w =
     (if (isPlaying pr \<and> activeSource w \<noteq> src pr) \<or> sourceChangedRef w p
      then updateAudioSource p (src pr) w
      else w)"

text \<open>Line 156, dependencies \<^verbatim>\<open>[isPlaying, src]\<close>: the first play/pause effect.\<close>

definition effect_playPause :: "player \<Rightarrow> props \<Rightarrow> state \<Rightarrow> state" where
  "effect_playPause p pr w =
     (let w0 = getAudioElement w in
      if isPlaying pr then
        (let w1 = setActivePlayer (src pr) (PlayerCallback p (isPlaying pr)) w0;
             w2 = (if sourceChangedRef w1 p then waitForCanPlay p (src pr) w1
                   else playAudio p (src pr) w1)
         in startSliderUpdates p pr w2)
      else if audio_src (activeElement w0) \<noteq> ''''
              \<and> js_includes (audio_src (activeElement w0)) (src pr)
              \<and> activeSource w0 = src pr
      then
        (let w1 = stopSliderUpdates p (audio_pause w0)
         in if activeSource w1 = src pr
            then w1\<lparr>activeSource := '''', activePlayerCallback := None\<rparr>
            else w1)
      else w0)"

text \<open>Line 204, dependencies \<^verbatim>\<open>[initialTime, isPlaying, src]\<close>: the initial position.\<close>

definition effect_initialTime :: "player \<Rightarrow> props \<Rightarrow> state \<Rightarrow> state" where
  "effect_initialTime p pr w =
     (let w0 = getAudioElement w in
      if initialTime pr > 0 \<and> isPlaying pr \<and> audio_src (activeElement w0) \<noteq> ''''
         \<and> js_includes (audio_src (activeElement w0)) (src pr)
      then emit (SetCurrentTime p (initialTime pr))
             (w0\<lparr>activeElement := (activeElement w0)\<lparr>audio_currentTime := initialTime pr\<rparr>\<rparr>)
      else w0)"

text \<open>
  Line 245, dependencies \<^verbatim>\<open>[isPlaying, src]\<close>: the second ("modified") play/pause
  effect, and the cleanup it returns.
\<close>

definition effect_playPause_modified :: "player \<Rightarrow> props \<Rightarrow> state \<Rightarrow> state" where
  "effect_playPause_modified p pr w =
     (let w0 = getAudioElement w in
      if isPlaying pr then
        (let w1 = setActivePlayer (src pr) (PlayerCallback p (isPlaying pr)) w0;
             w2 = (if sourceChangedRef w1 p then waitForCanPlay p (src pr) w1
                   else playAudio p (src pr) w1);
             w3 = startSliderUpdates p pr w2
         in w3\<lparr>activeSource := src pr\<rparr>)
      else if audio_src (activeElement w0) \<noteq> ''''
              \<and> js_includes (audio_src (activeElement w0)) (src pr)
              \<and> activeSource w0 = src pr
      then
        (let w1 = stopSliderUpdates p (audio_pause w0)
         in w1\<lparr>activeSource := '''', activePlayerCallback := None\<rparr>)
      else w0)"

definition cleanup_playPause_modified :: "player \<Rightarrow> props \<Rightarrow> state \<Rightarrow> state" where
  "cleanup_playPause_modified p pr w =
     (if isPlaying pr \<and> activeSource w = src pr then stopSliderUpdates p w else w)"

text \<open>Line 106, no dependencies: the cleanup sees the \<^verbatim>\<open>src\<close> of the first render.\<close>

definition cleanup_registration :: "props \<Rightarrow> state \<Rightarrow> state" where
  "cleanup_registration pr0 w =
     (if activeSource w = src pr0
      then w\<lparr>activeSource := '''', activePlayerCallback := None\<rparr>
      else w)"

text \<open>
  Line 117, no dependencies: the cleanup removes the listeners of \<^verbatim>\<open>setupAudioListeners\<close>
  (not part of the state) and pauses under the props of the first render.
\<close>

definition cleanup_listeners :: "props \<Rightarrow> state \<Rightarrow> state" where
  "cleanup_listeners pr0 w =
     (if isPlaying pr0 \<and> activeSource w = src pr0 then audio_pause w else w)"

text \<open>Line 220, dependencies \<^verbatim>\<open>[src]\<close>: the unmount cleanup.\<close>

definition cleanup_unmount :: "player \<Rightarrow> props \<Rightarrow> state \<Rightarrow> state" where
  "cleanup_unmount p pr w =
     (let w1 = (if activeSource w = src pr then
                  (let w2 = emit (OnPlayPause p) (audio_pause (getAudioElement w))
                   in w2\<lparr>activeSource := '''', activePlayerCallback := None\<rparr>)
                else w)
      in stopSliderUpdates p w1)"

text \<open>Line 485, no dependencies: the cleanup of the animation frame.\<close>

definition cleanup_animation :: "player \<Rightarrow> state \<Rightarrow> state" where
  "cleanup_animation p w = stopSliderUpdates p w"

subsection \<open>What React and the host run\<close>

text \<open>
  React runs the cleanups of a component, and then its effects, in the order of their
  \<^verbatim>\<open>useEffect\<close> calls. On a render it runs the cleanup and the effect of every
  \<^verbatim>\<open>useEffect\<close> with a changed dependency; on unmount it runs every cleanup. The
  effects left out of the state (the ref to \<^verbatim>\<open>onPlayPause\<close>, volume, duration, the
  visibility listener) touch none of its fields.

  \<open>rerender p prev pr\<close> commits a render of player \<open>p\<close> with props \<open>pr\<close> after one with
  props \<open>prev\<close>.
\<close>

definition rerender :: "player \<Rightarrow> props \<Rightarrow> props \<Rightarrow> state \<Rightarrow> state" where
  "rerender p prev pr w =
     (let changed = (\<not> (src prev = src pr \<and> isPlaying prev = isPlaying pr));
          c1 = (if src prev \<noteq> src pr then cleanup_unmount p prev w else w);
          c2 = (if changed then cleanup_playPause_modified p prev c1 else c1);
          e1 = (if changed then effect_updateSource p pr c2 else c2);
          e2 = (if changed then effect_playPause p pr e1 else e1);
          e3 = (if changed \<or> initialTime prev \<noteq> initialTime pr
                then effect_initialTime p pr e2 else e2)
      in if changed then effect_playPause_modified p pr e3 else e3)"

text \<open>
  \<open>mount p pr now\<close> is the first render of player \<open>p\<close>, with props \<open>pr\<close> at time
  \<open>now\<close>: its refs get their initial values and every effect runs.
\<close>

definition mount :: "player \<Rightarrow> props \<Rightarrow> int \<Rightarrow> state \<Rightarrow> state" where
  "mount p pr now w =
     (let w0 = w\<lparr>sourceChangedRef := (sourceChangedRef w)(p := False),
                   isUpdatingSourceRef := (isUpdatingSourceRef w)(p := False),
                   lastTimeUpdateRef := (lastTimeUpdateRef w)(p := now),
                   animationRef := (animationRef w)(p := None)\<rparr>
      in effect_playPause_modified p pr
           (effect_initialTime p pr
              (effect_playPause p pr
                 (effect_updateSource p pr
                    (effect_setup p pr w0)))))"

text \<open>
  \<open>unmount p pr0 pr\<close> unmounts player \<open>p\<close>, first rendered with props \<open>pr0\<close> and last
  with props \<open>pr\<close>.
\<close>

definition unmount :: "player \<Rightarrow> props \<Rightarrow> props \<Rightarrow> state \<Rightarrow> state" where
  "unmount p pr0 pr w =
     cleanup_animation p
       (cleanup_playPause_modified p pr
          (cleanup_unmount p pr
             (cleanup_listeners pr0
                (cleanup_registration pr0 w))))"

text \<open>
  The element fires \<^verbatim>\<open>canplay\<close>: the listeners registered at that moment run in the
  order of their registration, one that an earlier one removed is skipped.
\<close>

definition dispatch_canplay :: "state \<Rightarrow> state" where
  "dispatch_canplay w =
     fold (\<lambda>l w'. if l \<in> set (canplayListeners w') then canPlayHandler l w' else w')
       (canplayListeners w) w"

text \<open>The timeout with handle \<open>h\<close> fires, if it is pending.\<close>

definition fire_timeout :: "nat \<Rightarrow> state \<Rightarrow> state" where
  "fire_timeout h w =
     (case find (\<lambda>t. fst t = h) (timeouts w) of
        Some (_, _, c) \<Rightarrow> run_timeout c (w\<lparr>timeouts := filter (\<lambda>t. fst t \<noteq> h) (timeouts w)\<rparr>)
      | None \<Rightarrow> w)"


text \<open>
  The \<^verbatim>\<open>catch\<close> callback of the oldest rejected play promise runs, if one is waiting.
\<close>

definition reject_play_promise :: "state \<Rightarrow> state" where
  "reject_play_promise w =
     (case rejectedPromises w of
        [] \<Rightarrow> w
      | (p, name) # rest \<Rightarrow> playPromise_catch p name (w\<lparr>rejectedPromises := rest\<rparr>))"

text \<open>
  The state once the module is loaded in a browser (\<^verbatim>\<open>audioManager.initialize()\<close> has
  run), for a host that resolves an assigned \<^verbatim>\<open>src\<close> with \<open>resolve\<close>.
\<close>

definition module_loaded :: "(string \<Rightarrow> string) \<Rightarrow> state" where
  "module_loaded resolve =
     initialize
       \<lparr>activeElement = fresh_audio, isInitialized = False, activeSource = '''',
        activePlayerCallback = None, sourceChangedRef = (\<lambda>_. False),
        isUpdatingSourceRef = (\<lambda>_. False), lastTimeUpdateRef = (\<lambda>_. 0),
        animationRef = (\<lambda>_. None), canplayListeners = [], timeouts = [],
        animationFrames = [], nextHandle = 1, resolveUrl = resolve, playOutcome = Plays,
        rejectedPromises = [], log = []\<rparr>"

subsection \<open>Observations\<close>

text \<open>What a step from \<open>w\<close> to \<open>w'\<close> appended to the log.\<close>

definition new_events :: "state \<Rightarrow> state \<Rightarrow> event list" where
  "new_events w w' = drop (length (log w)) (log w')"

text \<open>A play attempt (\<^verbatim>\<open>playAudio\<close> is entered) or \<^verbatim>\<open>audio.play()\<close> itself.\<close>

fun starts_playback :: "event \<Rightarrow> bool" where
  "starts_playback (PlayAudio _) = True"
| "starts_playback MediaPlay = True"
| "starts_playback _ = False"


text \<open>What all players share: the element and the coordinator's active pair.\<close>

definition shared :: "state \<Rightarrow> audio_element \<times> string \<times> callback option" where
  "shared w = (activeElement w, activeSource w, activePlayerCallback w)"






text \<open>
  The \<^verbatim>\<open>timeupdate\<close> signals that the listener \<open>handleTimeUpdate\<close> of one player sees.
  Each signal comes with \<^verbatim>\<open>Date.now()\<close> and with the state that everything else has
  left; only the player's own \<open>lastTimeUpdateRef\<close>, which nothing else writes, is carried
  from one signal to the next. The result lists the times at which the listener forwarded
  a position.
\<close>

fun forwarded_times :: "player \<Rightarrow> props \<Rightarrow> (int \<times> state) list \<Rightarrow> int \<Rightarrow> int list" where
  "forwarded_times p pr [] prev_t = []"
| "forwarded_times p pr ((now, env) # rest) prev_t =
     (let w = env\<lparr>lastTimeUpdateRef := (lastTimeUpdateRef env)(p := prev_t)\<rparr>;
          w' = handleTimeUpdate p pr now w
      in (if log w' \<noteq> log w then [now] else [])
         @ forwarded_times p pr rest (lastTimeUpdateRef w' p))"

text \<open>An invocation of a stored deactivation callback.\<close>

fun is_callback_call :: "event \<Rightarrow> bool" where
  "is_callback_call (CallbackCalled cb b) = True"
| "is_callback_call e = False"

text \<open>The step from \<open>w\<close> to \<open>w'\<close> only appended events, all of them \<open>allowed\<close>.\<close>

definition extends_log :: "(event \<Rightarrow> bool) \<Rightarrow> state \<Rightarrow> state \<Rightarrow> bool" where
  "extends_log allowed w w' = (\<exists>xs. log w' = log w @ xs \<and> list_all allowed xs)"








text \<open>
  Modelled from the spec: the owning UI, which is not part of the source. It holds
  \<open>desiredPlaying\<close> of its player and passes it down as \<^verbatim>\<open>isPlaying\<close>; the
  \<^verbatim>\<open>onPlayPause\<close> it passes is, in the spec's words, "a play/pause intent toggle", which
  the component's button calls both to play and to pause. \<open>desiredPlaying p b evs\<close> is the
  value after the events \<open>evs\<close> when it was \<open>b\<close> before and every call flips it.
\<close>

fun desiredPlaying :: "player \<Rightarrow> bool \<Rightarrow> event list \<Rightarrow> bool" where
  "desiredPlaying p b [] = b"
| "desiredPlaying p b (e # es) = desiredPlaying p (if e = OnPlayPause p then \<not> b else b) es"

subsection \<open>A concrete page\<close>

text \<open>
  A host that resolves an assigned \<^verbatim>\<open>src\<close> against the page's base URL, and the props of
  a player for a recording, idle and playing.
\<close>

definition app_url :: "string \<Rightarrow> string" where
  "app_url s = ''https://app.test/'' @ s"

definition idle :: "string \<Rightarrow> props" where
  "idle s = \<lparr>src = s, isPlaying = False, initialTime = 0, onTimeUpdate = True\<rparr>"

definition playing :: "string \<Rightarrow> props" where
  "playing s = \<lparr>src = s, isPlaying = True, initialTime = 0, onTimeUpdate = True\<rparr>"

text \<open>A freshly loaded page with two idle players, for two recordings.\<close>

definition page :: state where
  "page = mount 2 (idle ''rec2.mp3'') 0 (mount 1 (idle ''rec1.mp3'') 0 (module_loaded app_url))"

text \<open>
  Player 1 was asked to play \<^verbatim>\<open>rec1.mp3\<close>: the source was swapped and the player waits
  for \<^verbatim>\<open>canplay\<close>.
\<close>

definition swap_pending :: state where
  "swap_pending = rerender 1 (idle ''rec1.mp3'') (playing ''rec1.mp3'') page"

text \<open>Then \<^verbatim>\<open>canplay\<close> arrived: player 1 is active and the element plays its recording.\<close>

definition one_playing :: state where
  "one_playing = dispatch_canplay swap_pending"

text \<open>
  The same on a host whose autoplay policy refuses: player 1 is active, \<^verbatim>\<open>audio.play()\<close>
  was called and its promise will be rejected.
\<close>

definition refused :: state where
  "refused = dispatch_canplay (swap_pending\<lparr>playOutcome := Rejects\<rparr>)"

text \<open>
  Or, instead, 100 ms passed (the timeout with handle 1 resets \<open>isUpdatingSourceRef\<close>
  of player 1) and player 2 was asked to play \<^verbatim>\<open>rec2.mp3\<close> before any \<^verbatim>\<open>canplay\<close>.
\<close>

definition two_requested :: state where
  "two_requested =
     rerender 2 (idle ''rec2.mp3'') (playing ''rec2.mp3'') (fire_timeout 1 swap_pending)"

text \<open>
  Player 1 played \<^verbatim>\<open>rec1.mp3\<close> and was paused by its owner: the recording is still
  loaded, the element is paused and no player is active.
\<close>

definition paused_loaded :: state where
  "paused_loaded = rerender 1 (playing ''rec1.mp3'') (idle ''rec1.mp3'') one_playing"



section \<open>Basic facts\<close>

subsection \<open>Substring containment\<close>

lemma js_includes_iff: "js_includes u s \<longleftrightarrow> (\<exists>a b. u = a @ s @ b)"
proof (induction u)
  case Nil
  then show ?case by auto
next
  case (Cons c u)
  have "sublist s (c # u) \<longleftrightarrow> prefix s (c # u) \<or> sublist s u"
    by (rule sublist_Cons_right)
  moreover have "js_includes u s \<longleftrightarrow> sublist s u"
    using Cons.IH by (simp add: sublist_def)
  ultimately have "js_includes (c # u) s \<longleftrightarrow> sublist s (c # u)"
    by simp
  then show ?case
    by (simp add: sublist_def)
qed

lemma js_includes_empty: "js_includes u []"
  by (simp add: js_includes_iff) (metis append_Nil)

subsection \<open>What the helpers leave alone\<close>

lemmas host_defs =
  emit_def audio_pause_def audio_play_def audio_set_src_def audio_load_def setTimeout_def
  requestAnimationFrame_def cancelAnimationFrame_def removeCanPlayListener_def
  initialize_def getAudioElement_def

lemma coordinator_host:
  "activeSource (emit e w) = activeSource w"
  "activePlayerCallback (emit e w) = activePlayerCallback w"
  "activeSource (audio_pause w) = activeSource w"
  "activePlayerCallback (audio_pause w) = activePlayerCallback w"
  "activeSource (getAudioElement w) = activeSource w"
  "activePlayerCallback (getAudioElement w) = activePlayerCallback w"
  "activeSource (audio_set_src s w) = activeSource w"
  "activePlayerCallback (audio_set_src s w) = activePlayerCallback w"
  by (simp_all add: host_defs)

lemma coordinator_invoke:
  "activeSource (invoke cb b w) = activeSource w"
  "activePlayerCallback (invoke cb b w) = activePlayerCallback w"
  by (cases cb; simp add: emit_def Let_def)+

lemma coordinator_stopSliderUpdates:
  "activeSource (stopSliderUpdates p w) = activeSource w"
  "activePlayerCallback (stopSliderUpdates p w) = activePlayerCallback w"
  by (simp_all add: stopSliderUpdates_def host_defs split: option.splits)

lemma coordinator_startSliderUpdates:
  "activeSource (startSliderUpdates p pr w) = activeSource w"
  "activePlayerCallback (startSliderUpdates p pr w) = activePlayerCallback w"
  by (simp_all add: startSliderUpdates_def Let_def requestAnimationFrame_def
      coordinator_stopSliderUpdates)

lemma coordinator_updateAudioSource:
  "activeSource (updateAudioSource p s w) = activeSource w"
  "activePlayerCallback (updateAudioSource p s w) = activePlayerCallback w"
  by (simp_all add: updateAudioSource_def Let_def host_defs)

lemma coordinator_playAudio:
  "activeSource (playAudio p s w) = activeSource w"
  "activePlayerCallback (playAudio p s w) = activePlayerCallback w"
  by (simp_all add: playAudio_def Let_def coordinator_updateAudioSource emit_def audio_play_def playPromise_attach_def)

lemma coordinator_waitForCanPlay:
  "activeSource (waitForCanPlay p s w) = activeSource w"
  "activePlayerCallback (waitForCanPlay p s w) = activePlayerCallback w"
  by (simp_all add: waitForCanPlay_def Let_def setTimeout_def)

lemma coordinator_effect_updateSource:
  "activeSource (effect_updateSource p pr w) = activeSource w"
  "activePlayerCallback (effect_updateSource p pr w) = activePlayerCallback w"
  by (simp_all add: effect_updateSource_def coordinator_updateAudioSource)

lemma coordinator_effect_initialTime:
  "activeSource (effect_initialTime p pr w) = activeSource w"
  "activePlayerCallback (effect_initialTime p pr w) = activePlayerCallback w"
  by (simp_all add: effect_initialTime_def Let_def host_defs)

lemma coordinator_setActivePlayer:
  "activeSource (setActivePlayer s cb w) = s"
  "activePlayerCallback (setActivePlayer s cb w) = Some cb"
  by (simp_all add: setActivePlayer_def Let_def)

lemma coordinator_error_paths:
  "activeSource (playPromise_catch p name w) = activeSource w"
  "activePlayerCallback (playPromise_catch p name w) = activePlayerCallback w"
  "activeSource (handleError message w) = activeSource w"
  "activePlayerCallback (handleError message w) = activePlayerCallback w"
  by (simp_all add: playPromise_catch_def handleError_def emit_def)










lemmas coordinator_frame =
  coordinator_host coordinator_invoke coordinator_stopSliderUpdates
  coordinator_startSliderUpdates coordinator_updateAudioSource coordinator_playAudio
  coordinator_waitForCanPlay coordinator_effect_updateSource coordinator_effect_initialTime
  coordinator_setActivePlayer

subsection \<open>The pairing of \<open>activeSource\<close> and \<open>activePlayerCallback\<close>\<close>













subsection \<open>What the steps append to the log\<close>

lemma extends_log_same: "log w' = log w \<Longrightarrow> extends_log allowed w w'"
  by (simp add: extends_log_def)

lemma extends_log_trans:
  assumes "extends_log allowed w w'" and "extends_log allowed w' w''"
  shows "extends_log allowed w w''"
proof -
  obtain xs where xs: "log w' = log w @ xs" "list_all allowed xs"
    using assms(1) by (auto simp: extends_log_def)
  obtain ys where ys: "log w'' = log w' @ ys" "list_all allowed ys"
    using assms(2) by (auto simp: extends_log_def)
  have "log w'' = log w @ (xs @ ys)" "list_all allowed (xs @ ys)"
    using xs ys by simp_all
  then show ?thesis
    unfolding extends_log_def by blast
qed

lemma extends_log_weaken:
  assumes "extends_log allowed w w'" and "\<And>e. allowed e \<Longrightarrow> allowed' e"
  shows "extends_log allowed' w w'"
  using assms by (auto simp: extends_log_def list_all_iff)

lemma extends_log_new_events:
  "extends_log allowed w w' \<Longrightarrow> list_all allowed (new_events w w')"
  by (auto simp: extends_log_def new_events_def)

lemma log_host:
  "log (getAudioElement w) = log w"
  "log (waitForCanPlay p s w) = log w"
  "log (stopSliderUpdates p w) = log w"
  "log (startSliderUpdates p pr w) = log w"
  by (simp_all add: host_defs waitForCanPlay_def stopSliderUpdates_def startSliderUpdates_def
      Let_def split: option.splits)

lemma extends_log_updateAudioSource:
  "extends_log (\<lambda>e. e = MediaPause \<or> e = MediaLoad) w (updateAudioSource p s w)"
  by (simp add: extends_log_def updateAudioSource_def Let_def host_defs)

lemma extends_log_effect_updateSource:
  "extends_log (\<lambda>e. e = MediaPause \<or> e = MediaLoad) w (effect_updateSource p pr w)"
  by (simp add: effect_updateSource_def extends_log_updateAudioSource extends_log_same)

lemma extends_log_playAudio:
  "extends_log (\<lambda>e. \<not> is_callback_call e) w (playAudio p s w)"
proof -
  have "extends_log (\<lambda>e. \<not> is_callback_call e) (emit (PlayAudio p) w)
      (updateAudioSource p s (emit (PlayAudio p) w))"
    by (rule extends_log_weaken [OF extends_log_updateAudioSource]) auto
  moreover have "extends_log (\<lambda>e. \<not> is_callback_call e) w (emit (PlayAudio p) w)"
    by (simp add: extends_log_def emit_def)
  ultimately have "extends_log (\<lambda>e. \<not> is_callback_call e) w
      (updateAudioSource p s (emit (PlayAudio p) w))"
    using extends_log_trans by blast
  then show ?thesis
    by (simp add: playAudio_def Let_def) (simp add: extends_log_def emit_def audio_play_def playPromise_attach_def)
qed

lemma extends_log_play_steps:
  "extends_log (\<lambda>e. \<not> is_callback_call e) w
     (startSliderUpdates p pr
        (if sourceChangedRef w p then waitForCanPlay p s w else playAudio p s w))"
proof (cases "sourceChangedRef w p")
  case True
  then show ?thesis
    by (simp add: extends_log_same log_host)
next
  case False
  have "extends_log (\<lambda>e. \<not> is_callback_call e) (playAudio p s w)
      (startSliderUpdates p pr (playAudio p s w))"
    by (simp add: extends_log_same log_host)
  then have "extends_log (\<lambda>e. \<not> is_callback_call e) w
      (startSliderUpdates p pr (playAudio p s w))"
    by (rule extends_log_trans [OF extends_log_playAudio])
  then show ?thesis
    using False by simp
qed

lemma extends_log_effect_initialTime:
  "extends_log (\<lambda>e. \<not> is_callback_call e) w (effect_initialTime p pr w)"
  by (simp add: extends_log_def effect_initialTime_def Let_def host_defs)

lemma log_setActivePlayer_same:
  "activeSource w = source \<Longrightarrow> log (setActivePlayer source cb w) = log w"
  by (simp add: setActivePlayer_def)

lemma log_setActivePlayer_other:
  assumes "activePlayerCallback w = Some old" and "activeSource w \<noteq> source"
  shows "\<exists>rest. log (setActivePlayer source cb w) = log w @ CallbackCalled old False # rest
           \<and> list_all (\<lambda>e. \<not> is_callback_call e) rest"
  using assms by (cases old) (simp add: setActivePlayer_def emit_def Let_def)

lemma effect_playPause_play:
  assumes "isPlaying pr"
  shows "extends_log (\<lambda>e. \<not> is_callback_call e)
           (setActivePlayer (src pr) (PlayerCallback p True) (getAudioElement w))
           (effect_playPause p pr w)"
    and "activeSource (effect_playPause p pr w) = src pr"
    and "activePlayerCallback (effect_playPause p pr w) = Some (PlayerCallback p True)"
  using assms extends_log_play_steps
    [of "setActivePlayer (src pr) (PlayerCallback p True) (getAudioElement w)" p pr "src pr"]
  by (simp_all add: effect_playPause_def Let_def coordinator_frame)

lemma effect_playPause_modified_play:
  assumes "isPlaying pr"
  shows "extends_log (\<lambda>e. \<not> is_callback_call e)
           (setActivePlayer (src pr) (PlayerCallback p True) (getAudioElement w))
           (effect_playPause_modified p pr w)"
    and "activeSource (effect_playPause_modified p pr w) = src pr"
    and "activePlayerCallback (effect_playPause_modified p pr w) = Some (PlayerCallback p True)"
  using assms extends_log_play_steps
    [of "setActivePlayer (src pr) (PlayerCallback p True) (getAudioElement w)" p pr "src pr"]
  by (simp_all add: effect_playPause_modified_def Let_def coordinator_frame extends_log_def)

lemma play_request_unfold:
  assumes "isPlaying pr" and "\<not> isPlaying prev" and "src prev = src pr"
  shows "rerender p prev pr w =
     effect_playPause_modified p pr
       (effect_initialTime p pr (effect_playPause p pr (effect_updateSource p pr w)))"
  using assms by (auto simp: rerender_def Let_def cleanup_playPause_modified_def)

lemma play_request_other_source:
  assumes "isPlaying pr" and "\<not> isPlaying prev" and "src prev = src pr"
    and "activePlayerCallback w = Some old" and "activeSource w \<noteq> src pr"
  shows "\<exists>before after.
      new_events w (rerender p prev pr w) = before @ CallbackCalled old False # after
      \<and> list_all (\<lambda>e. \<not> starts_playback e \<and> \<not> is_callback_call e) before
      \<and> list_all (\<lambda>e. \<not> is_callback_call e) after"
proof -
  let ?quiet = "\<lambda>e. \<not> is_callback_call e"
  define e1 where "e1 = effect_updateSource p pr w"
  define s1 where "s1 = setActivePlayer (src pr) (PlayerCallback p True) (getAudioElement e1)"
  define e2 where "e2 = effect_playPause p pr e1"
  define e3 where "e3 = effect_initialTime p pr e2"
  define s3 where "s3 = setActivePlayer (src pr) (PlayerCallback p True) (getAudioElement e3)"
  define e4 where "e4 = effect_playPause_modified p pr e3"
  have "extends_log (\<lambda>e. e = MediaPause \<or> e = MediaLoad) w e1"
    unfolding e1_def by (rule extends_log_effect_updateSource)
  then obtain before where before: "log e1 = log w @ before"
    "list_all (\<lambda>e. e = MediaPause \<or> e = MediaLoad) before"
    by (auto simp: extends_log_def)
  have "activePlayerCallback (getAudioElement e1) = Some old"
    "activeSource (getAudioElement e1) \<noteq> src pr"
    using assms(4,5) by (simp_all add: e1_def coordinator_frame)
  then have "\<exists>rest. log s1 = log (getAudioElement e1) @ CallbackCalled old False # rest
      \<and> list_all ?quiet rest"
    unfolding s1_def by (rule log_setActivePlayer_other)
  then obtain rest where rest: "log s1 = log e1 @ CallbackCalled old False # rest"
    "list_all ?quiet rest"
    by (auto simp: log_host)
  have s1_e2: "extends_log ?quiet s1 e2" and e2_src: "activeSource e2 = src pr"
    unfolding s1_def e2_def using effect_playPause_play [OF assms(1)] by simp_all
  have e2_e3: "extends_log ?quiet e2 e3" and e3_src: "activeSource e3 = src pr"
    unfolding e3_def using e2_src
    by (simp_all add: extends_log_effect_initialTime coordinator_frame)
  have "log s3 = log e3"
    unfolding s3_def using e3_src by (simp add: log_setActivePlayer_same coordinator_frame log_host)
  moreover have "extends_log ?quiet s3 e4"
    unfolding s3_def e4_def using effect_playPause_modified_play [OF assms(1)] by simp
  ultimately have e3_e4: "extends_log ?quiet e3 e4"
    by (simp add: extends_log_def)
  have "extends_log ?quiet s1 e4"
    using s1_e2 e2_e3 e3_e4 extends_log_trans by blast
  then obtain more where more: "log e4 = log s1 @ more" "list_all ?quiet more"
    by (auto simp: extends_log_def)
  have "rerender p prev pr w = e4"
    using play_request_unfold [OF assms(1,2,3)] by (simp add: e4_def e3_def e2_def e1_def)
  then have "new_events w (rerender p prev pr w) = before @ CallbackCalled old False # (rest @ more)"
    using before(1) rest(1) more(1) by (simp add: new_events_def)
  moreover have "list_all (\<lambda>e. \<not> starts_playback e \<and> \<not> is_callback_call e) before"
    using before(2) by (auto simp: list_all_iff)
  moreover have "list_all ?quiet (rest @ more)"
    using rest(2) more(2) by simp
  ultimately show ?thesis
    by blast
qed

lemma play_request_same_source:
  assumes "isPlaying pr" and "\<not> isPlaying prev" and "src prev = src pr"
    and "activeSource w = src pr"
  shows "list_all (\<lambda>e. \<not> is_callback_call e) (new_events w (rerender p prev pr w))"
proof -
  let ?quiet = "\<lambda>e. \<not> is_callback_call e"
  define e1 where "e1 = effect_updateSource p pr w"
  define s1 where "s1 = setActivePlayer (src pr) (PlayerCallback p True) (getAudioElement e1)"
  define e2 where "e2 = effect_playPause p pr e1"
  define e3 where "e3 = effect_initialTime p pr e2"
  define s3 where "s3 = setActivePlayer (src pr) (PlayerCallback p True) (getAudioElement e3)"
  define e4 where "e4 = effect_playPause_modified p pr e3"
  have w_e1: "extends_log ?quiet w e1"
    unfolding e1_def by (rule extends_log_weaken [OF extends_log_effect_updateSource]) auto
  have "log s1 = log e1"
    unfolding s1_def e1_def using assms(4)
    by (simp add: log_setActivePlayer_same coordinator_frame log_host)
  moreover have "extends_log ?quiet s1 e2" and e2_src: "activeSource e2 = src pr"
    unfolding s1_def e2_def using effect_playPause_play [OF assms(1)] by simp_all
  ultimately have e1_e2: "extends_log ?quiet e1 e2"
    by (simp add: extends_log_def)
  have e2_e3: "extends_log ?quiet e2 e3" and e3_src: "activeSource e3 = src pr"
    unfolding e3_def using e2_src
    by (simp_all add: extends_log_effect_initialTime coordinator_frame)
  have "log s3 = log e3"
    unfolding s3_def using e3_src by (simp add: log_setActivePlayer_same coordinator_frame log_host)
  moreover have "extends_log ?quiet s3 e4"
    unfolding s3_def e4_def using effect_playPause_modified_play [OF assms(1)] by simp
  ultimately have e3_e4: "extends_log ?quiet e3 e4"
    by (simp add: extends_log_def)
  have "extends_log ?quiet w e4"
    using w_e1 e1_e2 e2_e3 e3_e4 extends_log_trans by blast
  moreover have "rerender p prev pr w = e4"
    using play_request_unfold [OF assms(1,2,3)] by (simp add: e4_def e3_def e2_def e1_def)
  ultimately show ?thesis
    by (simp add: extends_log_new_events)
qed

subsection \<open>At most one active player\<close>
















section \<open>The claims\<close>

subsection \<open>C1: one active player, source and callback set and cleared together\<close>




subsection \<open>C2: the deactivation callback\<close>

text \<open>
  C2. Let a deactivation callback \<open>old\<close> be stored, for an active source other than
  \<open>source\<close>. Then \<open>setActivePlayer source cb\<close> runs \<open>old\<close> with \<^verbatim>\<open>false\<close> on the state it
  finds, in which the old pair is still in place, and stores the new pair on the result;
  the call of \<open>old\<close> is the first event of \<open>setActivePlayer\<close> and its only call of a
  callback. With the source that is already active, \<open>setActivePlayer\<close> appends no event.
  In the play request of the player that registers \<open>source\<close> (both play/pause effects of
  its render included), \<open>old\<close> is called with \<^verbatim>\<open>false\<close> exactly once, no other callback
  is called, and neither \<open>playAudio\<close> nor \<^verbatim>\<open>audio.play()\<close> runs before that call; in
  the play request of a player whose source is already the active one, no callback is
  called.
\<close>

theorem deactivation_once_before_playback:
  assumes "activePlayerCallback w = Some old" and "activeSource w \<noteq> source"
  shows "setActivePlayer source cb w
       = (invoke old False w)\<lparr>activeSource := source, activePlayerCallback := Some cb\<rparr>
     \<and> activeSource (invoke old False w) = activeSource w
     \<and> activePlayerCallback (invoke old False w) = Some old
     \<and> (\<exists>rest. new_events w (setActivePlayer source cb w) = CallbackCalled old False # rest
            \<and> list_all (\<lambda>e. \<not> is_callback_call e) rest)
     \<and> new_events w (setActivePlayer (activeSource w) cb w) = []
     \<and> (isPlaying pr \<and> \<not> isPlaying prev \<and> src prev = src pr \<and> src pr = source \<longrightarrow>
          (\<exists>before after.
              new_events w (rerender p prev pr w) = before @ CallbackCalled old False # after
              \<and> list_all (\<lambda>e. \<not> starts_playback e \<and> \<not> is_callback_call e) before
              \<and> list_all (\<lambda>e. \<not> is_callback_call e) after))
     \<and> (isPlaying pr \<and> \<not> isPlaying prev \<and> src prev = src pr \<and> src pr = activeSource w \<longrightarrow>
          list_all (\<lambda>e. \<not> is_callback_call e) (new_events w (rerender p prev pr w)))"
proof -
  have store: "setActivePlayer source cb w
      = (invoke old False w)\<lparr>activeSource := source, activePlayerCallback := Some cb\<rparr>"
    using assms by (simp add: setActivePlayer_def)
  have pair: "activeSource (invoke old False w) = activeSource w"
    "activePlayerCallback (invoke old False w) = Some old"
    using assms(1) by (simp_all add: coordinator_invoke)
  have once: "\<exists>rest. new_events w (setActivePlayer source cb w) = CallbackCalled old False # rest
      \<and> list_all (\<lambda>e. \<not> is_callback_call e) rest"
    using log_setActivePlayer_other [OF assms, of cb] by (auto simp: new_events_def)
  have same: "new_events w (setActivePlayer (activeSource w) cb w) = []"
    by (simp add: new_events_def log_setActivePlayer_same)
  have request: "isPlaying pr \<and> \<not> isPlaying prev \<and> src prev = src pr \<and> src pr = source \<longrightarrow>
      (\<exists>before after.
          new_events w (rerender p prev pr w) = before @ CallbackCalled old False # after
          \<and> list_all (\<lambda>e. \<not> starts_playback e \<and> \<not> is_callback_call e) before
          \<and> list_all (\<lambda>e. \<not> is_callback_call e) after)"
    using play_request_other_source [of pr prev w old p] assms by blast
  have again: "isPlaying pr \<and> \<not> isPlaying prev \<and> src prev = src pr \<and> src pr = activeSource w \<longrightarrow>
      list_all (\<lambda>e. \<not> is_callback_call e) (new_events w (rerender p prev pr w))"
    using play_request_same_source [of pr prev w p] by simp
  from store pair once same request again show ?thesis
    by (intro conjI)
qed

text \<open>
  While player 1 plays \<^verbatim>\<open>rec1.mp3\<close>, player 2 asks for \<^verbatim>\<open>rec2.mp3\<close>: the source is
  swapped, then player 1's callback is called and signals pause-intent to its owner. When
  instead a third player asks for \<^verbatim>\<open>rec1.mp3\<close>, the source that is already active, no
  callback is called.
\<close>

theorem deactivation_once_before_playback_witness:
  "activePlayerCallback one_playing = Some (PlayerCallback 1 True)
   \<and> activeSource one_playing \<noteq> ''rec2.mp3''
   \<and> (\<exists>before after.
         new_events one_playing (rerender 2 (idle ''rec2.mp3'') (playing ''rec2.mp3'') one_playing)
           = before @ CallbackCalled (PlayerCallback 1 True) False # after
         \<and> list_all (\<lambda>e. \<not> starts_playback e \<and> \<not> is_callback_call e) before
         \<and> list_all (\<lambda>e. \<not> is_callback_call e) after)
   \<and> new_events one_playing (rerender 2 (idle ''rec2.mp3'') (playing ''rec2.mp3'') one_playing)
       = [MediaPause, MediaLoad, MediaLoad, CallbackCalled (PlayerCallback 1 True) False,
          OnPlayPause 1]
   \<and> new_events one_playing (setActivePlayer ''rec2.mp3'' (PlayerCallback 2 True) one_playing)
       = [CallbackCalled (PlayerCallback 1 True) False, OnPlayPause 1]
   \<and> activeSource one_playing = src (playing ''rec1.mp3'')
   \<and> list_all (\<lambda>e. \<not> is_callback_call e)
        (new_events one_playing
           (rerender 3 (idle ''rec1.mp3'') (playing ''rec1.mp3'') one_playing))
   \<and> new_events one_playing (rerender 3 (idle ''rec1.mp3'') (playing ''rec1.mp3'') one_playing)
       = [PlayAudio 3, PlayAudio 3]"
proof -
  have cb: "activePlayerCallback one_playing = Some (PlayerCallback 1 True)"
    by code_simp
  have other: "activeSource one_playing \<noteq> ''rec2.mp3''"
    by code_simp
  have req: "isPlaying (playing ''rec2.mp3'') \<and> \<not> isPlaying (idle ''rec2.mp3'')
      \<and> src (idle ''rec2.mp3'') = src (playing ''rec2.mp3'')
      \<and> src (playing ''rec2.mp3'') = ''rec2.mp3''"
    by (simp add: playing_def idle_def)
  have same: "activeSource one_playing = src (playing ''rec1.mp3'')"
    by code_simp
  have req': "isPlaying (playing ''rec1.mp3'') \<and> \<not> isPlaying (idle ''rec1.mp3'')
      \<and> src (idle ''rec1.mp3'') = src (playing ''rec1.mp3'')"
    by (simp add: playing_def idle_def)
  have "\<exists>before after.
         new_events one_playing (rerender 2 (idle ''rec2.mp3'') (playing ''rec2.mp3'') one_playing)
           = before @ CallbackCalled (PlayerCallback 1 True) False # after
         \<and> list_all (\<lambda>e. \<not> starts_playback e \<and> \<not> is_callback_call e) before
         \<and> list_all (\<lambda>e. \<not> is_callback_call e) after"
    using deactivation_once_before_playback
      [OF cb other, of "PlayerCallback 2 True" "playing ''rec2.mp3''" "idle ''rec2.mp3''" 2] req
    by blast
  moreover have "list_all (\<lambda>e. \<not> is_callback_call e)
      (new_events one_playing
         (rerender 3 (idle ''rec1.mp3'') (playing ''rec1.mp3'') one_playing))"
    using deactivation_once_before_playback
      [OF cb other, of "PlayerCallback 2 True" "playing ''rec1.mp3''" "idle ''rec1.mp3''" 3]
      req' same
    by simp
  moreover have "new_events one_playing
      (rerender 2 (idle ''rec2.mp3'') (playing ''rec2.mp3'') one_playing)
       = [MediaPause, MediaLoad, MediaLoad, CallbackCalled (PlayerCallback 1 True) False,
          OnPlayPause 1]"
    by code_simp
  moreover have "new_events one_playing
      (setActivePlayer ''rec2.mp3'' (PlayerCallback 2 True) one_playing)
       = [CallbackCalled (PlayerCallback 1 True) False, OnPlayPause 1]"
    by code_simp
  moreover have "new_events one_playing
      (rerender 3 (idle ''rec1.mp3'') (playing ''rec1.mp3'') one_playing)
       = [PlayAudio 3, PlayAudio 3]"
    by code_simp
  ultimately show ?thesis
    using cb other same by blast
qed

subsection \<open>C3: the pause request of a player that is not active\<close>

text \<open>
  The two pause branches alone leave everything as it is when the player's source is not
  the active one, and so does the whole pause request while the player's
  \<open>sourceChangedRef\<close> is clear.
\<close>

lemma pause_branches_of_inactive_player:
  assumes "isInitialized w" and "\<not> isPlaying pr" and "activeSource w \<noteq> src pr"
  shows "effect_playPause p pr w = w" and "effect_playPause_modified p pr w = w"
  using assms
  by (simp_all add: effect_playPause_def effect_playPause_modified_def getAudioElement_def)

lemma pause_request_of_inactive_player:
  assumes "isInitialized w" and "isPlaying prev" and "\<not> isPlaying pr" and "src prev = src pr"
    and "activeSource w \<noteq> src pr" and "\<not> sourceChangedRef w p"
  shows "rerender p prev pr w = w"
  using assms
  by (simp add: rerender_def Let_def cleanup_playPause_modified_def effect_updateSource_def
      effect_initialTime_def getAudioElement_def pause_branches_of_inactive_player)

text \<open>
  With \<open>sourceChangedRef\<close> set (a source swap of the player is still waiting for
  \<^verbatim>\<open>canplay\<close>), the effect of line 148 runs \<open>updateAudioSource\<close> in the pause request as
  well: the element is paused and loads the player's source, whoever is active.
\<close>

lemma pause_request_with_pending_swap:
  assumes "isInitialized w" and "isPlaying prev" and "\<not> isPlaying pr" and "src prev = src pr"
    and "activeSource w \<noteq> src pr" and "sourceChangedRef w p" and "\<not> isUpdatingSourceRef w p"
    and "\<not> js_includes (audio_src (activeElement w)) (src pr)"
  shows "audio_src (activeElement (rerender p prev pr w)) = resolveUrl w (src pr)"
    and "audio_paused (activeElement (rerender p prev pr w))"
    and "activeSource (rerender p prev pr w) = activeSource w"
proof -
  define e1 where "e1 = effect_updateSource p pr w"
  have e1: "audio_src (activeElement e1) = resolveUrl w (src pr)"
    "audio_paused (activeElement e1)" "activeSource e1 = activeSource w" "isInitialized e1"
    using assms by (simp_all add: e1_def effect_updateSource_def updateAudioSource_def Let_def
        host_defs)
  have "rerender p prev pr w
      = effect_playPause_modified p pr (effect_initialTime p pr (effect_playPause p pr e1))"
    using assms(2,3,4,5)
    by (simp add: rerender_def Let_def cleanup_playPause_modified_def e1_def)
  also have "\<dots> = e1"
    using e1(3,4) assms(3,5)
    by (simp add: pause_branches_of_inactive_player effect_initialTime_def Let_def
        getAudioElement_def)
  finally show "audio_src (activeElement (rerender p prev pr w)) = resolveUrl w (src pr)"
    and "audio_paused (activeElement (rerender p prev pr w))"
    and "activeSource (rerender p prev pr w) = activeSource w"
    using e1 by simp_all
qed

text \<open>
  C3 fails on the code. On a page with two idle players, player 1 asked for
  \<^verbatim>\<open>rec1.mp3\<close>; 100 ms later, before any \<^verbatim>\<open>canplay\<close>, player 2 asked for
  \<^verbatim>\<open>rec2.mp3\<close>, which made it the active player, loaded its source and called player 1's
  deactivation callback. The pause request of player 1 that follows, a player whose source
  is not the active one, puts \<^verbatim>\<open>rec1.mp3\<close> back into the shared element (\<^verbatim>\<open>pause()\<close>,
  two \<^verbatim>\<open>load()\<close>), while \<open>activeSource\<close> stays \<^verbatim>\<open>rec2.mp3\<close>. When \<^verbatim>\<open>canplay\<close>
  then arrives, the element plays \<^verbatim>\<open>rec1.mp3\<close> although player 2 is the active one.
\<close>

theorem pause_of_inactive_player_swaps_source:
  "shared two_requested
     = (\<lparr>audio_src = ''https://app.test/rec2.mp3'', audio_paused = True, audio_currentTime = 0\<rparr>,
        ''rec2.mp3'', Some (PlayerCallback 2 True))
   \<and> shared (rerender 1 (playing ''rec1.mp3'') (idle ''rec1.mp3'') two_requested)
     = (\<lparr>audio_src = ''https://app.test/rec1.mp3'', audio_paused = True, audio_currentTime = 0\<rparr>,
        ''rec2.mp3'', Some (PlayerCallback 2 True))
   \<and> new_events two_requested
        (rerender 1 (playing ''rec1.mp3'') (idle ''rec1.mp3'') two_requested)
     = [MediaPause, MediaLoad, MediaLoad]
   \<and> shared (dispatch_canplay
        (rerender 1 (playing ''rec1.mp3'') (idle ''rec1.mp3'') two_requested))
     = (\<lparr>audio_src = ''https://app.test/rec1.mp3'', audio_paused = False, audio_currentTime = 0\<rparr>,
        ''rec2.mp3'', Some (PlayerCallback 2 True))"
  by code_simp

subsection \<open>C4: unmounting a player\<close>

text \<open>
  Whatever the player's state, its unmount leaves it without a pending animation frame
  of its own.
\<close>

lemma stopSliderUpdates_cancels:
  "animationRef (stopSliderUpdates p w) p = None"
  "animationRef w p = Some h \<Longrightarrow> h \<notin> fst ` set (animationFrames (stopSliderUpdates p w))"
  by (auto simp: stopSliderUpdates_def cancelAnimationFrame_def split: option.splits)

lemma unmount_cancels_animation:
  "animationRef (unmount p pr0 pr w) p = None"
  by (simp add: unmount_def cleanup_animation_def stopSliderUpdates_cancels)

text \<open>The cleanup of line 220, taken alone, does for an active player what C4 says.\<close>

lemma cleanup_unmount_of_active_player:
  assumes "isInitialized w" and "activeSource w = src pr"
  shows "audio_paused (activeElement (cleanup_unmount p pr w))"
    and "new_events w (cleanup_unmount p pr w) = [MediaPause, OnPlayPause p]"
    and "activeSource (cleanup_unmount p pr w) = ''''"
    and "activePlayerCallback (cleanup_unmount p pr w) = None"
    and "animationRef (cleanup_unmount p pr w) p = None"
  using assms
  by (simp_all add: cleanup_unmount_def Let_def host_defs new_events_def
      stopSliderUpdates_def split: option.splits)

text \<open>
  But on unmount the cleanup of line 106 runs first. If the player still has the
  \<^verbatim>\<open>src\<close> of its first render and that source is the active one, this cleanup empties
  \<open>activeSource\<close>, the tests \<^verbatim>\<open>audioManager.activeSource === src\<close> of the later cleanups
  fail, and the element and the log stay as they were.
\<close>

lemma unmount_of_active_player:
  assumes "activeSource w = src pr" and "src pr0 = src pr" and "src pr \<noteq> ''''"
  shows "activeElement (unmount p pr0 pr w) = activeElement w"
    and "log (unmount p pr0 pr w) = log w"
    and "activeSource (unmount p pr0 pr w) = ''''"
    and "activePlayerCallback (unmount p pr0 pr w) = None"
  using assms
  by (simp_all add: unmount_def cleanup_animation_def cleanup_playPause_modified_def
      cleanup_unmount_def cleanup_listeners_def cleanup_registration_def Let_def
      stopSliderUpdates_def cancelAnimationFrame_def split: option.splits)

text \<open>
  Only a player whose \<^verbatim>\<open>src\<close> has changed since its first render gets past the cleanup of
  line 106, and its unmount then does what C4 says.
\<close>

lemma unmount_after_src_change:
  assumes "isInitialized w" and "activeSource w = src pr" and "src pr0 \<noteq> src pr"
  shows "audio_paused (activeElement (unmount p pr0 pr w))"
    and "new_events w (unmount p pr0 pr w) = [MediaPause, OnPlayPause p]"
    and "activeSource (unmount p pr0 pr w) = ''''"
    and "activePlayerCallback (unmount p pr0 pr w) = None"
  using assms
  by (simp_all add: unmount_def cleanup_animation_def cleanup_playPause_modified_def
      cleanup_unmount_def cleanup_listeners_def cleanup_registration_def Let_def
      stopSliderUpdates_def host_defs new_events_def split: option.splits)

text \<open>
  C4 fails on the code. Player 1, mounted idle with \<^verbatim>\<open>rec1.mp3\<close>, is active and the
  element plays its recording. Its unmount clears the coordinator's pair and cancels the
  animation frame, but the element goes on playing and the owning UI gets no signal.
\<close>

theorem unmount_of_active_player_keeps_playing:
  "shared one_playing
     = (\<lparr>audio_src = ''https://app.test/rec1.mp3'', audio_paused = False, audio_currentTime = 0\<rparr>,
        ''rec1.mp3'', Some (PlayerCallback 1 True))
   \<and> shared (unmount 1 (idle ''rec1.mp3'') (playing ''rec1.mp3'') one_playing)
     = (\<lparr>audio_src = ''https://app.test/rec1.mp3'', audio_paused = False, audio_currentTime = 0\<rparr>,
        '''', None)
   \<and> new_events one_playing (unmount 1 (idle ''rec1.mp3'') (playing ''rec1.mp3'') one_playing)
     = []
   \<and> animationRef (unmount 1 (idle ''rec1.mp3'') (playing ''rec1.mp3'') one_playing) 1 = None
   \<and> animationFrames (unmount 1 (idle ''rec1.mp3'') (playing ''rec1.mp3'') one_playing) = []"
  by code_simp

subsection \<open>C5: the wait for \<^verbatim>\<open>canplay\<close> and its fallback\<close>

text \<open>
  One call of \<open>waitForCanPlay\<close> alone, with no other listener or timeout pending, leads to
  exactly one more play attempt of its player, whether \<^verbatim>\<open>canplay\<close> comes before the
  timeout, after it or never.
\<close>

lemma updateAudioSource_host:
  "canplayListeners (updateAudioSource p s w) = canplayListeners w"
  "count_list (log (updateAudioSource p s w)) (PlayAudio q) = count_list (log w) (PlayAudio q)"
  "\<exists>ts. timeouts (updateAudioSource p s w) = timeouts w @ ts
      \<and> (\<forall>t \<in> set ts. nextHandle w \<le> fst t)"
  by (simp_all add: updateAudioSource_def Let_def host_defs)

lemma playAudio_host:
  "canplayListeners (playAudio p s w) = canplayListeners w"
  "count_list (log (playAudio p s w)) (PlayAudio p) = Suc (count_list (log w) (PlayAudio p))"
  "\<exists>ts. timeouts (playAudio p s w) = timeouts w @ ts \<and> (\<forall>t \<in> set ts. nextHandle w \<le> fst t)"
  using updateAudioSource_host [of p s "emit (PlayAudio p) w"]
  by (simp_all add: playAudio_def Let_def emit_def audio_play_def
      playPromise_attach_def)

lemma waitForCanPlay_alone:
  assumes "canplayListeners w = []" and "timeouts w = []" and "sourceChangedRef w p"
  shows "count_list (log (fire_timeout (Suc (nextHandle w))
            (dispatch_canplay (waitForCanPlay p s w)))) (PlayAudio p)
         = Suc (count_list (log w) (PlayAudio p))"
    and "count_list (log (dispatch_canplay
            (fire_timeout (Suc (nextHandle w)) (waitForCanPlay p s w)))) (PlayAudio p)
         = Suc (count_list (log w) (PlayAudio p))"
    and "count_list (log (fire_timeout (Suc (nextHandle w)) (waitForCanPlay p s w)))
            (PlayAudio p)
         = Suc (count_list (log w) (PlayAudio p))"
proof -
  define h where "h = nextHandle w"
  define w1 where "w1 = waitForCanPlay p s w"
  have w1: "canplayListeners w1 = [(h, p, s)]"
    "timeouts w1 = [(Suc h, 1000, CanPlayTimeout p s h)]"
    "nextHandle w1 = Suc (Suc h)" "sourceChangedRef w1 p" "log w1 = log w"
    using assms by (simp_all add: w1_def h_def waitForCanPlay_def Let_def setTimeout_def)
  define w2 where "w2 = w1\<lparr>timeouts := [], sourceChangedRef := (sourceChangedRef w1)(p := False)\<rparr>"
  define t1 where "t1 = fire_timeout (Suc h) w1"
  have t1: "t1 = removeCanPlayListener h (playAudio p s w2)"
    using w1 by (simp add: t1_def fire_timeout_def w2_def Let_def)
  have t1_log: "count_list (log t1) (PlayAudio p) = Suc (count_list (log w) (PlayAudio p))"
    using playAudio_host(2) [of p s w2] w1(5)
    by (simp add: t1 removeCanPlayListener_def w2_def)
  have t1_listeners: "canplayListeners t1 = []"
    using playAudio_host(1) [of p s w2] w1(1)
    by (simp add: t1 removeCanPlayListener_def w2_def)
  have "dispatch_canplay t1 = t1"
    using t1_listeners by (simp add: dispatch_canplay_def)
  then show "count_list (log (dispatch_canplay
            (fire_timeout (Suc (nextHandle w)) (waitForCanPlay p s w)))) (PlayAudio p)
         = Suc (count_list (log w) (PlayAudio p))"
    and "count_list (log (fire_timeout (Suc (nextHandle w)) (waitForCanPlay p s w)))
            (PlayAudio p)
         = Suc (count_list (log w) (PlayAudio p))"
    using t1_log by (simp_all add: t1_def w1_def h_def)
  define a where "a = playAudio p s w1"
  define c1 where "c1 = dispatch_canplay w1"
  have c1: "c1 = removeCanPlayListener h (a\<lparr>sourceChangedRef := (sourceChangedRef a)(p := False)\<rparr>)"
    using w1(1) by (simp add: c1_def dispatch_canplay_def canPlayHandler_def Let_def a_def)
  obtain ts where ts: "timeouts a = (Suc h, 1000, CanPlayTimeout p s h) # ts"
    using playAudio_host(3) [of p s w1] w1(2) by (auto simp: a_def)
  have "fire_timeout (Suc h) c1 = c1\<lparr>timeouts := filter (\<lambda>t. fst t \<noteq> Suc h) (timeouts c1)\<rparr>"
    using ts by (simp add: c1 fire_timeout_def removeCanPlayListener_def)
  moreover have "count_list (log c1) (PlayAudio p) = Suc (count_list (log w) (PlayAudio p))"
    using playAudio_host(2) [of p s w1] w1(5) by (simp add: c1 removeCanPlayListener_def a_def)
  ultimately show "count_list (log (fire_timeout (Suc (nextHandle w))
            (dispatch_canplay (waitForCanPlay p s w)))) (PlayAudio p)
         = Suc (count_list (log w) (PlayAudio p))"
    by (simp add: c1_def w1_def h_def)
qed

text \<open>
  C5 fails on the code. Both play/pause effects (lines 156 and 245) run in the render of a
  play request, and after a source swap each of them calls \<open>waitForCanPlay\<close>: two
  listeners (handles 2 and 5) and two fallback timeouts of 1000 ms (handles 3 and 6) are
  pending. If \<^verbatim>\<open>canplay\<close> comes before the timeouts, both listeners run \<open>playAudio\<close>. If
  it comes after them, the first timeout runs \<open>playAudio\<close>, the second finds
  \<open>sourceChangedRef\<close> cleared and leaves its listener in place, and that listener runs
  \<open>playAudio\<close> again. Only if \<^verbatim>\<open>canplay\<close> never comes is there one play attempt. The
  second attempt calls \<^verbatim>\<open>audio.play()\<close> again whenever the element is still, or again,
  paused: on a host whose autoplay policy refuses, and when the player was paused in
  between, in which case the element ends up playing with no player active.
\<close>

theorem source_swap_two_play_attempts:
  "map fst (canplayListeners swap_pending) = [2, 5]
   \<and> map (\<lambda>t. (fst t, fst (snd t))) (timeouts swap_pending) = [(1, 100), (3, 1000), (6, 1000)]
   \<and> new_events swap_pending (fire_timeout 6 (fire_timeout 3 (dispatch_canplay swap_pending)))
       = [PlayAudio 1, MediaPlay, PlayAudio 1]
   \<and> new_events swap_pending (dispatch_canplay (fire_timeout 6 (fire_timeout 3 swap_pending)))
       = [PlayAudio 1, MediaPlay, PlayAudio 1]
   \<and> new_events swap_pending (fire_timeout 6 (fire_timeout 3 swap_pending))
       = [PlayAudio 1, MediaPlay]
   \<and> new_events swap_pending
        (fire_timeout 6 (fire_timeout 3 (dispatch_canplay (swap_pending\<lparr>playOutcome := Rejects\<rparr>))))
       = [PlayAudio 1, MediaPlay, PlayAudio 1, MediaPlay]
   \<and> new_events swap_pending
        (dispatch_canplay (fire_timeout 6 (fire_timeout 3 (swap_pending\<lparr>playOutcome := Rejects\<rparr>))))
       = [PlayAudio 1, MediaPlay, PlayAudio 1, MediaPlay]
   \<and> new_events swap_pending
        (dispatch_canplay
           (rerender 1 (playing ''rec1.mp3'') (idle ''rec1.mp3'')
              (fire_timeout 6 (fire_timeout 3 swap_pending))))
       = [PlayAudio 1, MediaPlay, MediaPause, PlayAudio 1, MediaPlay]
   \<and> shared
        (dispatch_canplay
           (rerender 1 (playing ''rec1.mp3'') (idle ''rec1.mp3'')
              (fire_timeout 6 (fire_timeout 3 swap_pending))))
       = (\<lparr>audio_src = ''https://app.test/rec1.mp3'', audio_paused = False, audio_currentTime = 0\<rparr>,
          '''', None)"
  by code_simp

subsection \<open>C6: seeking\<close>

text \<open>
  C6. A seek request of a player carries the requested position \<open>t\<close>. If the element's
  loaded source does not pass the player's test \<^verbatim>\<open>audio.src.includes(src)\<close>, the seek
  changes nothing: the position stays and nothing is forwarded. If it passes, the element's
  position becomes \<open>t\<close> and \<open>t\<close> is forwarded at once, to the player's own display
  (\<^verbatim>\<open>setCurrentTime\<close>) and to the owning UI's \<^verbatim>\<open>onTimeUpdate\<close> when one was passed,
  whatever the time of the last throttled update \<open>lastTimeUpdateRef\<close> is.
\<close>

theorem seek_only_on_loaded_source:
  assumes "isInitialized w"
  shows "if js_includes (audio_src (activeElement w)) (src pr)
     then (\<forall>l. \<exists>w'. handleSeek p pr (t # ts) (w\<lparr>lastTimeUpdateRef := l\<rparr>) = Inr w'
             \<and> audio_currentTime (activeElement w') = t
             \<and> new_events w w' =
                 SetCurrentTime p t # (if onTimeUpdate pr then [OnTimeUpdate p t] else []))
     else handleSeek p pr value w = Inr w"
  using assms by (simp add: handleSeek_def getAudioElement_def emit_def new_events_def)

text \<open>
  While the element plays \<^verbatim>\<open>rec1.mp3\<close>, its player seeks to 42 s; the seek of a player
  for \<^verbatim>\<open>rec2.mp3\<close> changes nothing.
\<close>

theorem seek_only_on_loaded_source_witness:
  "isInitialized one_playing
   \<and> js_includes (audio_src (activeElement one_playing)) (src (playing ''rec1.mp3''))
   \<and> (\<exists>w'. handleSeek 1 (playing ''rec1.mp3'') [42] one_playing = Inr w'
          \<and> audio_currentTime (activeElement w') = 42
          \<and> new_events one_playing w' = [SetCurrentTime 1 42, OnTimeUpdate 1 42])
   \<and> \<not> js_includes (audio_src (activeElement one_playing)) (src (idle ''rec2.mp3''))
   \<and> handleSeek 2 (idle ''rec2.mp3'') [42] one_playing = Inr one_playing"
proof -
  have init: "isInitialized one_playing"
    by code_simp
  have m1: "js_includes (audio_src (activeElement one_playing)) (src (playing ''rec1.mp3''))"
    by code_simp
  have m2: "\<not> js_includes (audio_src (activeElement one_playing)) (src (idle ''rec2.mp3''))"
    by code_simp
  have tu: "onTimeUpdate (playing ''rec1.mp3'')"
    by (simp add: playing_def)
  have "\<forall>l. \<exists>w'. handleSeek 1 (playing ''rec1.mp3'') [42] (one_playing\<lparr>lastTimeUpdateRef := l\<rparr>) = Inr w'
          \<and> audio_currentTime (activeElement w') = 42
          \<and> new_events one_playing w' = [SetCurrentTime 1 42, OnTimeUpdate 1 42]"
    using seek_only_on_loaded_source [OF init, of "playing ''rec1.mp3''" 1 42 "[]" "[]"] m1 tu
    by simp
  from spec [OF this, of "lastTimeUpdateRef one_playing"]
  have "\<exists>w'. handleSeek 1 (playing ''rec1.mp3'') [42] one_playing = Inr w'
          \<and> audio_currentTime (activeElement w') = 42
          \<and> new_events one_playing w' = [SetCurrentTime 1 42, OnTimeUpdate 1 42]"
    by simp
  moreover have "handleSeek 2 (idle ''rec2.mp3'') [42] one_playing = Inr one_playing"
    using seek_only_on_loaded_source [OF init, of "idle ''rec2.mp3''" 2 0 "[]" "[42]"]
    by (simp only: m2 if_False)
  ultimately show ?thesis
    using init m1 m2 by blast
qed

subsection \<open>C7: the error paths of a play attempt\<close>

lemma playAudio_throwing:
  assumes "playOutcome w = Throws" and "audio_paused (activeElement w)"
    and "js_includes (audio_src (activeElement w)) s"
  shows "playAudio p s w = w\<lparr>log := log w @ [PlayAudio p, MediaPlay, OnPlayPause p]\<rparr>"
  using assms by (simp add: playAudio_def emit_def Let_def)

text \<open>
  What \<open>setActivePlayer\<close> appends to the log depends on the active pair alone.
\<close>

lemma setActivePlayer_events_cong:
  assumes "activeSource w' = activeSource w" and "activePlayerCallback w' = activePlayerCallback w"
  shows "new_events w' (setActivePlayer source cb w') = new_events w (setActivePlayer source cb w)"
proof (cases "activePlayerCallback w")
  case None
  then show ?thesis
    using assms by (simp add: setActivePlayer_def new_events_def)
next
  case (Some old)
  then show ?thesis
    using assms by (cases old) (simp add: setActivePlayer_def new_events_def emit_def Let_def)
qed

text \<open>
  C7, as amended. No error path of a play attempt releases the active pair: after the
  \<^verbatim>\<open>catch\<close> callback of a rejected play promise (whatever the error), after a media
  \<^verbatim>\<open>error\<close> event and after \<open>playAudio\<close> (its \<^verbatim>\<open>catch\<close> block included),
  \<open>activeSource\<close> and \<open>activePlayerCallback\<close> are what they were, so they still name the
  failing player if it was active. All that the error paths do is tell the outside: the
  rejection calls the owning UI's play/pause callback and shows a notice, and only for
  \<^verbatim>\<open>NotAllowedError\<close>; the media \<^verbatim>\<open>error\<close> event shows a notice and calls no callback;
  the \<^verbatim>\<open>catch\<close> block of \<open>playAudio\<close>, entered when \<^verbatim>\<open>audio.play()\<close> throws, calls
  the play/pause callback. A later \<open>setActivePlayer\<close> of any player nevertheless does
  what it would have done without the error: it makes the same calls, that of the failing
  player's stored callback among them, and stores the new pair.
\<close>

theorem error_paths_keep_active_pair:
  "activeSource (playPromise_catch p name w) = activeSource w
   \<and> activePlayerCallback (playPromise_catch p name w) = activePlayerCallback w
   \<and> activeSource (handleError message w) = activeSource w
   \<and> activePlayerCallback (handleError message w) = activePlayerCallback w
   \<and> activeSource (playAudio p s w) = activeSource w
   \<and> activePlayerCallback (playAudio p s w) = activePlayerCallback w
   \<and> new_events w (playPromise_catch p name w)
       = (if name = ''NotAllowedError''
          then [OnPlayPause p, ToastError ''Please click play to start audio'']
          else [])
   \<and> new_events w (handleError message w)
       = [ToastError (''Audio error: '' @
            (case message of
               Some m \<Rightarrow> if m = '''' then ''Unknown error'' else m
             | None \<Rightarrow> ''Unknown error''))]
   \<and> (playOutcome w = Throws \<and> audio_paused (activeElement w)
        \<and> js_includes (audio_src (activeElement w)) s \<longrightarrow>
          new_events w (playAudio p s w) = [PlayAudio p, MediaPlay, OnPlayPause p])
   \<and> activeSource (setActivePlayer source cb (playPromise_catch p name w)) = source
   \<and> activePlayerCallback (setActivePlayer source cb (playPromise_catch p name w)) = Some cb
   \<and> new_events (playPromise_catch p name w)
        (setActivePlayer source cb (playPromise_catch p name w))
       = new_events w (setActivePlayer source cb w)
   \<and> activeSource (setActivePlayer source cb (handleError message w)) = source
   \<and> activePlayerCallback (setActivePlayer source cb (handleError message w)) = Some cb
   \<and> new_events (handleError message w) (setActivePlayer source cb (handleError message w))
       = new_events w (setActivePlayer source cb w)
   \<and> activeSource (setActivePlayer source cb (playAudio p s w)) = source
   \<and> activePlayerCallback (setActivePlayer source cb (playAudio p s w)) = Some cb
   \<and> new_events (playAudio p s w) (setActivePlayer source cb (playAudio p s w))
       = new_events w (setActivePlayer source cb w)"
proof -
  have catch: "new_events w (playPromise_catch p name w)
       = (if name = ''NotAllowedError''
          then [OnPlayPause p, ToastError ''Please click play to start audio'']
          else [])"
    by (simp add: new_events_def playPromise_catch_def emit_def)
  have media: "new_events w (handleError message w)
       = [ToastError (''Audio error: '' @
            (case message of
               Some m \<Rightarrow> if m = '''' then ''Unknown error'' else m
             | None \<Rightarrow> ''Unknown error''))]"
    by (simp add: new_events_def handleError_def emit_def)
  have throw: "playOutcome w = Throws \<and> audio_paused (activeElement w)
        \<and> js_includes (audio_src (activeElement w)) s \<longrightarrow>
          new_events w (playAudio p s w) = [PlayAudio p, MediaPlay, OnPlayPause p]"
    by (simp add: new_events_def playAudio_def emit_def Let_def)
  have later: "new_events (playPromise_catch p name w)
        (setActivePlayer source cb (playPromise_catch p name w))
       = new_events w (setActivePlayer source cb w)"
    "new_events (handleError message w) (setActivePlayer source cb (handleError message w))
       = new_events w (setActivePlayer source cb w)"
    "new_events (playAudio p s w) (setActivePlayer source cb (playAudio p s w))
       = new_events w (setActivePlayer source cb w)"
    by (rule setActivePlayer_events_cong;
        simp add: coordinator_error_paths coordinator_playAudio)+
  show ?thesis
    using catch media throw later
    by (simp add: coordinator_error_paths coordinator_playAudio coordinator_setActivePlayer)
qed

text \<open>
  Player 1 waits for \<^verbatim>\<open>canplay\<close> with \<^verbatim>\<open>rec1.mp3\<close> on a host whose
  \<^verbatim>\<open>audio.play()\<close> throws. Its play attempt ends in the \<^verbatim>\<open>catch\<close> block and leaves its
  pair in place; when player 2 then registers \<^verbatim>\<open>rec2.mp3\<close>, the callback of player 1 is
  called as usual.
\<close>

theorem error_paths_keep_active_pair_witness:
  "playOutcome (swap_pending\<lparr>playOutcome := Throws\<rparr>) = Throws
   \<and> audio_paused (activeElement (swap_pending\<lparr>playOutcome := Throws\<rparr>))
   \<and> js_includes (audio_src (activeElement (swap_pending\<lparr>playOutcome := Throws\<rparr>))) ''rec1.mp3''
   \<and> new_events (swap_pending\<lparr>playOutcome := Throws\<rparr>)
        (playAudio 1 ''rec1.mp3'' (swap_pending\<lparr>playOutcome := Throws\<rparr>))
       = [PlayAudio 1, MediaPlay, OnPlayPause 1]
   \<and> activeSource (playAudio 1 ''rec1.mp3'' (swap_pending\<lparr>playOutcome := Throws\<rparr>))
       = ''rec1.mp3''
   \<and> activePlayerCallback (playAudio 1 ''rec1.mp3'' (swap_pending\<lparr>playOutcome := Throws\<rparr>))
       = Some (PlayerCallback 1 True)
   \<and> new_events (playAudio 1 ''rec1.mp3'' (swap_pending\<lparr>playOutcome := Throws\<rparr>))
        (setActivePlayer ''rec2.mp3'' (PlayerCallback 2 True)
           (playAudio 1 ''rec1.mp3'' (swap_pending\<lparr>playOutcome := Throws\<rparr>)))
       = [CallbackCalled (PlayerCallback 1 True) False, OnPlayPause 1]"
proof -
  let ?w = "swap_pending\<lparr>playOutcome := Throws\<rparr>"
  have hyp: "playOutcome ?w = Throws" "audio_paused (activeElement ?w)"
    "js_includes (audio_src (activeElement ?w)) ''rec1.mp3''"
    by code_simp+
  have pair: "activeSource ?w = ''rec1.mp3''"
    "activePlayerCallback ?w = Some (PlayerCallback 1 True)"
    by code_simp+
  have before: "new_events ?w (setActivePlayer ''rec2.mp3'' (PlayerCallback 2 True) ?w)
      = [CallbackCalled (PlayerCallback 1 True) False, OnPlayPause 1]"
    by code_simp
  note inst = error_paths_keep_active_pair
    [of 1 "''NotAllowedError''" ?w None "''rec1.mp3''" "''rec2.mp3''" "PlayerCallback 2 True"]
  have "new_events ?w (playAudio 1 ''rec1.mp3'' ?w) = [PlayAudio 1, MediaPlay, OnPlayPause 1]"
    using inst hyp by blast
  moreover have "activeSource (playAudio 1 ''rec1.mp3'' ?w) = ''rec1.mp3''"
    "activePlayerCallback (playAudio 1 ''rec1.mp3'' ?w) = Some (PlayerCallback 1 True)"
    using inst pair by simp_all
  moreover have "new_events (playAudio 1 ''rec1.mp3'' ?w)
        (setActivePlayer ''rec2.mp3'' (PlayerCallback 2 True) (playAudio 1 ''rec1.mp3'' ?w))
      = [CallbackCalled (PlayerCallback 1 True) False, OnPlayPause 1]"
    using inst before by simp
  ultimately show ?thesis
    using hyp by blast
qed

text \<open>
  C7 as stated fails. Player 1 is active with \<^verbatim>\<open>rec1.mp3\<close>. After the rejection of its
  play promise by the autoplay policy, and likewise after a media error while it plays, the
  coordinator still holds its source and its callback.
\<close>

theorem error_leaves_failing_player_registered:
  "activeSource (playPromise_catch 1 ''NotAllowedError'' refused) = ''rec1.mp3''
   \<and> activePlayerCallback (playPromise_catch 1 ''NotAllowedError'' refused)
       = Some (PlayerCallback 1 True)
   \<and> activeSource (handleError None one_playing) = ''rec1.mp3''
   \<and> activePlayerCallback (handleError None one_playing) = Some (PlayerCallback 1 True)"
  by code_simp

subsection \<open>C8: a rejected playback start\<close>

text \<open>
  One play attempt alone does what C8 says. On a host whose autoplay policy refuses,
  \<open>playAudio\<close> on the paused element calls \<^verbatim>\<open>audio.play()\<close> and leaves one rejected play
  promise; when its \<^verbatim>\<open>catch\<close> callback runs, the owning UI's play/pause callback is called
  once and the notice "Please click play to start audio" is shown once. Nothing else
  changes: the coordinator and the element are as before.
\<close>

lemma playAudio_refused:
  assumes "playOutcome w = Rejects" and "audio_paused (activeElement w)"
    and "js_includes (audio_src (activeElement w)) s" and "rejectedPromises w = []"
  shows "rejectedPromises (playAudio p s w) = [(p, ''NotAllowedError'')]"
    and "reject_play_promise (playAudio p s w)
       = w\<lparr>log := log w @ [PlayAudio p, MediaPlay, OnPlayPause p,
                              ToastError ''Please click play to start audio'']\<rparr>"
  using assms
  by (simp_all add: playAudio_def Let_def emit_def audio_play_def playPromise_attach_def
      reject_play_promise_def playPromise_catch_def)

text \<open>
  C8 fails on the code, by the defect of C5: a play request runs both play/pause effects
  (lines 156 and 245), and on a host that refuses the element stays paused, so that each
  of the two play attempts calls \<^verbatim>\<open>audio.play()\<close> and each of the two promises is
  rejected. Player 1 was asked to play \<^verbatim>\<open>rec1.mp3\<close> and \<^verbatim>\<open>canplay\<close> arrived: two
  rejections are waiting, and their callbacks call the play/pause toggle of player 1 twice
  and show the notice twice, whether the callbacks run after both listeners or each after
  its own. One call takes the owner's \<open>desiredPlaying\<close> from true to false, the second one
  takes it back to true, while the element stays paused and player 1 stays registered. The
  same happens without a source swap, when the recording is already loaded.
\<close>

theorem refused_play_request_signals_twice:
  "new_events swap_pending refused = [PlayAudio 1, MediaPlay, PlayAudio 1, MediaPlay]
   \<and> rejectedPromises refused = [(1, ''NotAllowedError''), (1, ''NotAllowedError'')]
   \<and> new_events refused (reject_play_promise (reject_play_promise refused))
       = [OnPlayPause 1, ToastError ''Please click play to start audio'',
          OnPlayPause 1, ToastError ''Please click play to start audio'']
   \<and> shared (reject_play_promise (reject_play_promise refused))
       = (\<lparr>audio_src = ''https://app.test/rec1.mp3'', audio_paused = True, audio_currentTime = 0\<rparr>,
          ''rec1.mp3'', Some (PlayerCallback 1 True))
   \<and> desiredPlaying 1 True [OnPlayPause 1, ToastError ''Please click play to start audio'']
       = False
   \<and> desiredPlaying 1 True
        (new_events refused (reject_play_promise (reject_play_promise refused))) = True
   \<and> canplayListeners swap_pending = [(2, 1, ''rec1.mp3''), (5, 1, ''rec1.mp3'')]
   \<and> new_events swap_pending
        (reject_play_promise (canPlayHandler (5, 1, ''rec1.mp3'')
           (reject_play_promise (canPlayHandler (2, 1, ''rec1.mp3'')
              (swap_pending\<lparr>playOutcome := Rejects\<rparr>)))))
       = [PlayAudio 1, MediaPlay, OnPlayPause 1, ToastError ''Please click play to start audio'',
          PlayAudio 1, MediaPlay, OnPlayPause 1, ToastError ''Please click play to start audio'']
   \<and> shared paused_loaded
       = (\<lparr>audio_src = ''https://app.test/rec1.mp3'', audio_paused = True, audio_currentTime = 0\<rparr>,
          '''', None)
   \<and> new_events paused_loaded
        (reject_play_promise (reject_play_promise
           (rerender 1 (idle ''rec1.mp3'') (playing ''rec1.mp3'')
              (paused_loaded\<lparr>playOutcome := Rejects\<rparr>))))
       = [PlayAudio 1, MediaPlay, PlayAudio 1, MediaPlay,
          OnPlayPause 1, ToastError ''Please click play to start audio'',
          OnPlayPause 1, ToastError ''Please click play to start audio'']"
  by code_simp

subsection \<open>C9: the throttled listener\<close>

lemma forwarded_after_threshold:
  "t \<in> set (forwarded_times p pr sigs prev_t) \<Longrightarrow> t - prev_t > 250"
proof (induction sigs arbitrary: prev_t)
  case Nil
  then show ?case by simp
next
  case (Cons sg sigs)
  obtain now env where sg: "sg = (now, env)"
    by (cases sg)
  show ?case
    using Cons.prems Cons.IH
    apply (simp add: sg Let_def handleTimeUpdate_def timeUpdateThreshold_def emit_def
        split: if_splits)
     apply force+
    done
qed

text \<open>
  C9. Whatever \<^verbatim>\<open>timeupdate\<close> signals the element sends, at whatever times and in
  whatever state of the element and the coordinator, any two consecutive position updates
  that the throttled listener of a player forwards are more than 250 ms apart.
\<close>

theorem throttled_updates_over_250ms_apart:
  "successively (\<lambda>t t'. t' - t > 250) (forwarded_times p pr sigs prev_t)"
proof (induction sigs arbitrary: prev_t)
  case Nil
  then show ?case by simp
next
  case (Cons sg sigs)
  obtain now env where sg: "sg = (now, env)"
    by (cases sg)
  define w where "w = env\<lparr>lastTimeUpdateRef := (lastTimeUpdateRef env)(p := prev_t)\<rparr>"
  define w' where "w' = handleTimeUpdate p pr now w"
  define rest where "rest = forwarded_times p pr sigs (lastTimeUpdateRef w' p)"
  have unfold: "forwarded_times p pr (sg # sigs) prev_t
      = (if log w' \<noteq> log w then [now] else []) @ rest"
    by (simp add: sg w_def w'_def rest_def Let_def)
  have rest_ok: "successively (\<lambda>t t'. t' - t > 250) rest"
    unfolding rest_def by (rule Cons.IH)
  show ?case
  proof (cases "log w' \<noteq> log w")
    case False
    then show ?thesis
      using unfold rest_ok by simp
  next
    case True
    then have "lastTimeUpdateRef w' p = now"
      by (auto simp: w'_def handleTimeUpdate_def Let_def emit_def split: if_splits)
    then have "\<forall>t \<in> set rest. t - now > 250"
      using forwarded_after_threshold unfolding rest_def by metis
    then have "rest = [] \<or> hd rest - now > 250"
      by (cases rest) auto
    then show ?thesis
      using unfold rest_ok True by (auto simp: successively_Cons)
  qed
qed

text \<open>
  Signals at 300, 550, 551 and 900 ms after the last update, with the player's source
  loaded: the one at 550 ms, exactly 250 ms after the first, is not forwarded.
\<close>

lemma throttled_updates_example:
  "forwarded_times 1 (playing ''rec1.mp3'')
     [(300, one_playing), (550, one_playing), (551, one_playing), (900, one_playing)] 0
   = [300, 551, 900]"
  by code_simp

subsection \<open>C10: the source guards test containment\<close>

text \<open>
  C10. Every "source matches" guard of a player is \<^verbatim>\<open>audio.src.includes(src)\<close>: it
  accepts exactly when the loaded URL is \<open>a @ src @ b\<close> for some \<open>a\<close> and \<open>b\<close>, so the two
  need not be equal, and an empty \<^verbatim>\<open>src\<close> is contained in every URL. When the URL
  contains the player's \<^verbatim>\<open>src\<close>, the guards accept the player: its seek sets the
  element's position, the \<^verbatim>\<open>ended\<close> listener resets its position and signals
  pause-intent, the throttled listener (past its threshold) and the sampling loop (while
  the element plays) forward the element's position to it, \<open>playAudio\<close> leaves the loaded
  source in place and calls \<^verbatim>\<open>audio.play()\<close> on a paused element, and, when its source is
  the active one and the URL is not empty, its pause request pauses the element and clears
  the active pair. When the URL does not contain the \<^verbatim>\<open>src\<close>, the guards reject the
  player: its seek, the \<^verbatim>\<open>ended\<close> listener, the sampling loop and its pause request change
  nothing, the throttled listener forwards nothing, and \<open>playAudio\<close> swaps the source
  instead of calling \<^verbatim>\<open>audio.play()\<close>.
\<close>

theorem source_guards_test_containment:
  assumes "isInitialized w"
  shows "if (\<exists>a b. audio_src (activeElement w) = a @ src pr @ b)
     then js_includes (audio_src (activeElement w)) (src pr)
       \<and> (\<exists>w'. handleSeek p pr (t # ts) w = Inr w' \<and> audio_currentTime (activeElement w') = t)
       \<and> new_events w (handleEnded p pr w)
           = SetCurrentTime p 0 # (if onTimeUpdate pr then [OnTimeUpdate p 0] else [])
             @ [OnPlayPause p]
       \<and> (now - lastTimeUpdateRef w p > 250 \<longrightarrow>
            new_events w (handleTimeUpdate p pr now w)
              = SetCurrentTime p (audio_currentTime (activeElement w))
                # (if onTimeUpdate pr then [OnTimeUpdate p (audio_currentTime (activeElement w))]
                   else []))
       \<and> (\<not> audio_paused (activeElement w) \<longrightarrow>
            new_events w (updateSlider p pr w)
              = SetCurrentTime p (audio_currentTime (activeElement w))
                # (if onTimeUpdate pr then [OnTimeUpdate p (audio_currentTime (activeElement w))]
                   else []))
       \<and> audio_src (activeElement (playAudio p (src pr) w)) = audio_src (activeElement w)
       \<and> (audio_paused (activeElement w) \<longrightarrow>
            MediaPlay \<in> set (new_events w (playAudio p (src pr) w)))
       \<and> (activeSource w = src pr \<and> audio_src (activeElement w) \<noteq> '''' \<and> \<not> isPlaying pr \<longrightarrow>
            audio_paused (activeElement (effect_playPause p pr w))
            \<and> activeSource (effect_playPause p pr w) = ''''
            \<and> audio_paused (activeElement (effect_playPause_modified p pr w))
            \<and> activeSource (effect_playPause_modified p pr w) = '''')
     else \<not> js_includes (audio_src (activeElement w)) (src pr)
       \<and> handleSeek p pr vs w = Inr w
       \<and> handleEnded p pr w = w
       \<and> new_events w (handleTimeUpdate p pr now w) = []
       \<and> updateSlider p pr w = w
       \<and> playAudio p (src pr) w = updateAudioSource p (src pr) (emit (PlayAudio p) w)
       \<and> MediaPlay \<notin> set (new_events w (playAudio p (src pr) w))
       \<and> (\<not> isPlaying pr \<longrightarrow>
            effect_playPause p pr w = w \<and> effect_playPause_modified p pr w = w)"
proof (cases "\<exists>a b. audio_src (activeElement w) = a @ src pr @ b")
  case True
  then have inc: "js_includes (audio_src (activeElement w)) (src pr)"
    using js_includes_iff by blast
  have seek: "\<exists>w'. handleSeek p pr (t # ts) w = Inr w' \<and> audio_currentTime (activeElement w') = t"
    using inc assms(1) by (simp add: handleSeek_def getAudioElement_def emit_def Let_def)
  have ended: "new_events w (handleEnded p pr w)
      = SetCurrentTime p 0 # (if onTimeUpdate pr then [OnTimeUpdate p 0] else []) @ [OnPlayPause p]"
    using inc by (simp add: handleEnded_def new_events_def emit_def)
  have throttled: "now - lastTimeUpdateRef w p > 250 \<longrightarrow>
      new_events w (handleTimeUpdate p pr now w)
        = SetCurrentTime p (audio_currentTime (activeElement w))
          # (if onTimeUpdate pr then [OnTimeUpdate p (audio_currentTime (activeElement w))]
             else [])"
    using inc
    by (simp add: handleTimeUpdate_def timeUpdateThreshold_def new_events_def emit_def Let_def)
  have sampling: "\<not> audio_paused (activeElement w) \<longrightarrow>
      new_events w (updateSlider p pr w)
        = SetCurrentTime p (audio_currentTime (activeElement w))
          # (if onTimeUpdate pr then [OnTimeUpdate p (audio_currentTime (activeElement w))]
             else [])"
    using inc assms(1)
    by (simp add: updateSlider_def new_events_def emit_def Let_def requestAnimationFrame_def)
  have play: "audio_src (activeElement (playAudio p (src pr) w)) = audio_src (activeElement w)"
    "audio_paused (activeElement w) \<longrightarrow> MediaPlay \<in> set (new_events w (playAudio p (src pr) w))"
    using inc by (simp_all add: playAudio_def new_events_def emit_def Let_def audio_play_def
        playPromise_attach_def)
  have pause: "activeSource w = src pr \<and> audio_src (activeElement w) \<noteq> '''' \<and> \<not> isPlaying pr \<longrightarrow>
      audio_paused (activeElement (effect_playPause p pr w))
      \<and> activeSource (effect_playPause p pr w) = ''''
      \<and> audio_paused (activeElement (effect_playPause_modified p pr w))
      \<and> activeSource (effect_playPause_modified p pr w) = ''''"
    using inc assms(1)
    by (simp add: effect_playPause_def effect_playPause_modified_def Let_def getAudioElement_def
        stopSliderUpdates_def audio_pause_def emit_def cancelAnimationFrame_def
        split: option.splits)
  show ?thesis
    unfolding if_P [OF True] using inc seek ended throttled sampling play pause by blast
next
  case False
  then have exc: "\<not> js_includes (audio_src (activeElement w)) (src pr)"
    using js_includes_iff by blast
  have seek: "handleSeek p pr vs w = Inr w"
    using exc assms(1) by (simp add: handleSeek_def getAudioElement_def)
  have ended: "handleEnded p pr w = w"
    using exc by (simp add: handleEnded_def)
  have throttled: "new_events w (handleTimeUpdate p pr now w) = []"
    using exc by (simp add: handleTimeUpdate_def new_events_def Let_def)
  have sampling: "updateSlider p pr w = w"
    using exc by (simp add: updateSlider_def)
  have play: "playAudio p (src pr) w = updateAudioSource p (src pr) (emit (PlayAudio p) w)"
    using exc by (simp add: playAudio_def Let_def emit_def)
  have "log (updateAudioSource p (src pr) (emit (PlayAudio p) w)) = log w @ [PlayAudio p]
      \<or> log (updateAudioSource p (src pr) (emit (PlayAudio p) w))
          = log w @ [PlayAudio p, MediaPause, MediaLoad, MediaLoad]"
    by (simp add: updateAudioSource_def Let_def host_defs)
  then have noplay: "MediaPlay \<notin> set (new_events w (playAudio p (src pr) w))"
    unfolding play new_events_def by auto
  have pause: "\<not> isPlaying pr \<longrightarrow>
      effect_playPause p pr w = w \<and> effect_playPause_modified p pr w = w"
    using exc assms(1)
    by (simp add: effect_playPause_def effect_playPause_modified_def getAudioElement_def)
  show ?thesis
    unfolding if_not_P [OF False] using exc seek ended throttled sampling play noplay pause
    by blast
qed

text \<open>
  The element plays \<^verbatim>\<open>https://app.test/rec1.mp3\<close>. A player for \<^verbatim>\<open>rec1\<close>, a strict
  substring, and a player with the empty \<^verbatim>\<open>src\<close> both seek the element and both get its
  \<^verbatim>\<open>ended\<close> signal; the first also gets its position from the throttled listener and
  from the sampling loop, and its \<open>playAudio\<close> leaves the loaded source in place. The
  pause request of player 1, whose \<^verbatim>\<open>rec1.mp3\<close> is the active source and is contained in
  the URL, pauses the element. A player for \<^verbatim>\<open>rec2.mp3\<close>, which the URL does not
  contain, is rejected by every guard.
\<close>

theorem source_guards_test_containment_witness:
  "isInitialized one_playing
   \<and> audio_src (activeElement one_playing) = ''https://app.test/'' @ src (idle ''rec1'') @ ''.mp3''
   \<and> audio_src (activeElement one_playing) \<noteq> src (idle ''rec1'')
   \<and> (\<exists>w'. handleSeek 3 (idle ''rec1'') [7] one_playing = Inr w'
          \<and> audio_currentTime (activeElement w') = 7)
   \<and> new_events one_playing (handleEnded 3 (idle ''rec1'') one_playing)
       = [SetCurrentTime 3 0, OnTimeUpdate 3 0, OnPlayPause 3]
   \<and> 300 - lastTimeUpdateRef one_playing 3 > 250
   \<and> new_events one_playing (handleTimeUpdate 3 (idle ''rec1'') 300 one_playing)
       = [SetCurrentTime 3 0, OnTimeUpdate 3 0]
   \<and> \<not> audio_paused (activeElement one_playing)
   \<and> new_events one_playing (updateSlider 3 (idle ''rec1'') one_playing)
       = [SetCurrentTime 3 0, OnTimeUpdate 3 0]
   \<and> audio_src (activeElement (playAudio 3 (src (idle ''rec1'')) one_playing))
       = ''https://app.test/rec1.mp3''
   \<and> audio_src (activeElement one_playing) = [] @ src (idle '''') @ ''https://app.test/rec1.mp3''
   \<and> (\<exists>w'. handleSeek 4 (idle '''') [7] one_playing = Inr w'
          \<and> audio_currentTime (activeElement w') = 7)
   \<and> new_events one_playing (handleEnded 4 (idle '''') one_playing)
       = [SetCurrentTime 4 0, OnTimeUpdate 4 0, OnPlayPause 4]
   \<and> audio_src (activeElement one_playing) = ''https://app.test/'' @ src (idle ''rec1.mp3'') @ []
   \<and> activeSource one_playing = src (idle ''rec1.mp3'')
   \<and> audio_paused (activeElement (effect_playPause_modified 1 (idle ''rec1.mp3'') one_playing))
   \<and> activeSource (effect_playPause_modified 1 (idle ''rec1.mp3'') one_playing) = ''''
   \<and> \<not> js_includes (audio_src (activeElement one_playing)) (src (idle ''rec2.mp3''))
   \<and> handleSeek 2 (idle ''rec2.mp3'') [7] one_playing = Inr one_playing
   \<and> handleEnded 2 (idle ''rec2.mp3'') one_playing = one_playing
   \<and> new_events one_playing (handleTimeUpdate 2 (idle ''rec2.mp3'') 300 one_playing) = []
   \<and> updateSlider 2 (idle ''rec2.mp3'') one_playing = one_playing
   \<and> effect_playPause_modified 2 (idle ''rec2.mp3'') one_playing = one_playing"
proof -
  have init: "isInitialized one_playing"
    by code_simp
  have sub: "audio_src (activeElement one_playing)
      = ''https://app.test/'' @ src (idle ''rec1'') @ ''.mp3''"
    by code_simp
  have strict: "audio_src (activeElement one_playing) \<noteq> src (idle ''rec1'')"
    by code_simp
  have empty: "audio_src (activeElement one_playing)
      = [] @ src (idle '''') @ ''https://app.test/rec1.mp3''"
    by code_simp
  have own: "audio_src (activeElement one_playing)
      = ''https://app.test/'' @ src (idle ''rec1.mp3'') @ []"
    by code_simp
  have url: "audio_src (activeElement one_playing) = ''https://app.test/rec1.mp3''"
    by code_simp
  have other: "\<not> js_includes (audio_src (activeElement one_playing)) (src (idle ''rec2.mp3''))"
    by code_simp
  have state: "300 - lastTimeUpdateRef one_playing 3 > 250"
    "\<not> audio_paused (activeElement one_playing)"
    "audio_currentTime (activeElement one_playing) = 0"
    "activeSource one_playing = src (idle ''rec1.mp3'')"
    by code_simp+
  have tu: "onTimeUpdate (idle ''rec1'')" "onTimeUpdate (idle '''')"
    "\<not> isPlaying (idle ''rec1.mp3'')" "\<not> isPlaying (idle ''rec2.mp3'')"
    by (simp_all add: idle_def)
  have c1: "\<exists>a b. audio_src (activeElement one_playing) = a @ src (idle ''rec1'') @ b"
    using sub by blast
  have c2: "\<exists>a b. audio_src (activeElement one_playing) = a @ src (idle '''') @ b"
    using empty by blast
  have c3: "\<exists>a b. audio_src (activeElement one_playing) = a @ src (idle ''rec1.mp3'') @ b"
    using own by blast
  have c4: "\<not> (\<exists>a b. audio_src (activeElement one_playing) = a @ src (idle ''rec2.mp3'') @ b)"
    using other js_includes_iff by blast
  note g1 = source_guards_test_containment [OF init, where pr = "idle ''rec1''" and p = 3 and t = 7
      and ts = "[]" and now = 300 and vs = "[7]",
      unfolded if_P [OF c1]]
  note g2 = source_guards_test_containment [OF init, where pr = "idle ''''" and p = 4 and t = 7
      and ts = "[]" and now = 300 and vs = "[7]",
      unfolded if_P [OF c2]]
  note g3 = source_guards_test_containment [OF init, where pr = "idle ''rec1.mp3''" and p = 1 and t = 7
      and ts = "[]" and now = 300 and vs = "[7]",
      unfolded if_P [OF c3]]
  note g4 = source_guards_test_containment [OF init, where pr = "idle ''rec2.mp3''" and p = 2 and t = 7
      and ts = "[]" and now = 300 and vs = "[7]",
      unfolded if_not_P [OF c4]]
  have "\<exists>w'. handleSeek 3 (idle ''rec1'') [7] one_playing = Inr w'
          \<and> audio_currentTime (activeElement w') = 7"
    using g1 by blast
  moreover have "new_events one_playing (handleEnded 3 (idle ''rec1'') one_playing)
       = [SetCurrentTime 3 0, OnTimeUpdate 3 0, OnPlayPause 3]"
    using g1 tu(1) by simp
  moreover have "new_events one_playing (handleTimeUpdate 3 (idle ''rec1'') 300 one_playing)
       = [SetCurrentTime 3 0, OnTimeUpdate 3 0]"
    using g1 tu(1) state(1,3) by simp
  moreover have "new_events one_playing (updateSlider 3 (idle ''rec1'') one_playing)
       = [SetCurrentTime 3 0, OnTimeUpdate 3 0]"
    using g1 tu(1) state(2,3) by simp
  moreover have "audio_src (activeElement (playAudio 3 (src (idle ''rec1'')) one_playing))
       = ''https://app.test/rec1.mp3''"
    using g1 url by simp
  moreover have "\<exists>w'. handleSeek 4 (idle '''') [7] one_playing = Inr w'
          \<and> audio_currentTime (activeElement w') = 7"
    using g2 by blast
  moreover have "new_events one_playing (handleEnded 4 (idle '''') one_playing)
       = [SetCurrentTime 4 0, OnTimeUpdate 4 0, OnPlayPause 4]"
    using g2 tu(2) by simp
  moreover have "audio_paused (activeElement
        (effect_playPause_modified 1 (idle ''rec1.mp3'') one_playing))
      \<and> activeSource (effect_playPause_modified 1 (idle ''rec1.mp3'') one_playing) = ''''"
    using g3 tu(3) state(4) url by simp
  moreover have "handleSeek 2 (idle ''rec2.mp3'') [7] one_playing = Inr one_playing
      \<and> handleEnded 2 (idle ''rec2.mp3'') one_playing = one_playing
      \<and> new_events one_playing (handleTimeUpdate 2 (idle ''rec2.mp3'') 300 one_playing) = []
      \<and> updateSlider 2 (idle ''rec2.mp3'') one_playing = one_playing
      \<and> effect_playPause_modified 2 (idle ''rec2.mp3'') one_playing = one_playing"
    using g4 tu(4) by blast
  ultimately show ?thesis
    using init sub strict empty own state other by blast
qed

end
